theory Spec2Isabelle
  imports Complex_Main
begin

section \<open>The analytics data processor of Galactic Roof AI\<close>

text \<open>
  A shallow embedding of the analytics data processor (the module that exports
  \<open>processLeadData\<close>, \<open>processProjectData\<close>, \<open>processCustomerData\<close>,
  \<open>processWeatherEventData\<close>, \<open>generatePrediction\<close>, \<open>generateTimeBasedAggregates\<close> and
  \<open>processAllData\<close>).

  Conventions of the model.
  \<^item> JavaScript numbers are modelled as \<open>real\<close> (integers as \<open>int\<close> where the column is an
    integer key): the arithmetic is the exact one, without IEEE rounding, and a division by
    zero (NaN in JavaScript) is never relied upon. A numeric column holds a number; a null
    one reads as 0, as it does in JavaScript arithmetic.
  \<^item> Strings are \<open>char list\<close>; \<open>toLowerCase\<close> folds the ASCII letters only.
  \<^item> A nullable text column is a \<open>string option\<close>; JavaScript truthiness of such a value
    (\<open>null\<close> and the empty string are falsy) is \<open>truthy\<close>.
  \<^item> A date column is the time value of the parsed date (milliseconds since the epoch),
    \<open>None\<close> when the column is null or empty; strings that \<open>new Date\<close> cannot parse are outside
    the model.
  \<^item> Every \<open>db.get\<close>, \<open>db.all\<close> and \<open>db.run\<close> may fail: the world carries a schedule of
    outcomes, one per database call, consumed in call order. \<open>Math.random()\<close> draws from a
    schedule of the same kind, and \<open>new Date()\<close> reads the field \<open>now\<close>.
\<close>

subsection \<open>JavaScript strings and truthiness\<close>

type_synonym timestamp = int

definition toLowerCase_char :: "char \<Rightarrow> char" where
  "toLowerCase_char c =
     (case map_of (zip ''ABCDEFGHIJKLMNOPQRSTUVWXYZ'' ''abcdefghijklmnopqrstuvwxyz'') c of
        Some l \<Rightarrow> l
      | None \<Rightarrow> c)"

definition toLowerCase :: "string \<Rightarrow> string" where
  "toLowerCase s = map toLowerCase_char s"

fun startsWith :: "string \<Rightarrow> string \<Rightarrow> bool" where
  "startsWith s [] = True"
| "startsWith [] (p # ps) = False"
| "startsWith (c # cs) (p # ps) = (c = p \<and> startsWith cs ps)"

fun includesStr :: "string \<Rightarrow> string \<Rightarrow> bool" where
  "includesStr [] pat = (pat = [])"
| "includesStr (c # cs) pat = (startsWith (c # cs) pat \<or> includesStr cs pat)"

definition truthy :: "string option \<Rightarrow> bool" where
  "truthy v = (case v of None \<Rightarrow> False | Some s \<Rightarrow> s \<noteq> [])"

subsection \<open>Errors, rows and the store\<close>

datatype error =
    StoreError
  | NotFoundError
  | ValidationError string

record 'a row =
  row_id :: int
  created_at :: timestamp
  cols :: 'a

text \<open>
  \<open>id INTEGER PRIMARY KEY AUTOINCREMENT\<close>: the id of an inserted row is one more than the
  largest id in use (the module never deletes a row).
\<close>

definition lastID :: "'a row list \<Rightarrow> int" where
  "lastID t = fold max (map row_id t) 0 + 1"

definition db_get :: "('a \<Rightarrow> bool) \<Rightarrow> 'a row list \<Rightarrow> 'a row option" where
  "db_get P t = find (\<lambda>r. P (cols r)) t"

definition db_update :: "('a row \<Rightarrow> bool) \<Rightarrow> ('a \<Rightarrow> 'a) \<Rightarrow> 'a row list \<Rightarrow> 'a row list" where
  "db_update P f t = map (\<lambda>r. if P r then r\<lparr>cols := f (cols r)\<rparr> else r) t"

definition db_insert :: "timestamp \<Rightarrow> 'a \<Rightarrow> 'a row list \<Rightarrow> 'a row list" where
  "db_insert t0 c t = t @ [\<lparr>row_id = lastID t, created_at = t0, cols = c\<rparr>]"

subsection \<open>Entities and derived records\<close>

record lead =
  l_id :: int
  l_source :: "string option"
  l_service_interest :: "string option"
  l_created_at :: "timestamp option"

record project =
  p_id :: int
  p_customer_id :: int
  p_project_type :: "string option"
  p_start_date :: "timestamp option"
  p_end_date :: "timestamp option"
  p_contract_amount :: real
  p_created_at :: "timestamp option"

record customer =
  c_id :: int

record weather_event =
  w_id :: int
  w_event_type :: "string option"
  w_severity :: real
  w_zip :: "string option"
  w_event_date :: timestamp

record business_metric =
  bm_metric_name :: string
  bm_metric_value :: real
  bm_start_date :: "timestamp option"
  bm_end_date :: "timestamp option"

record lead_analytics =
  la_lead_id :: int
  la_acquisition_source :: string
  la_acquisition_cost :: real
  la_lead_score :: real
  la_conversion_probability :: real
  la_days_to_conversion :: "int option"
  la_converted_to_customer :: bool
  la_conversion_date :: "timestamp option"

record project_analytics =
  pa_project_id :: int
  pa_estimated_cost :: real
  pa_actual_cost :: real
  pa_cost_variance_percent :: real
  pa_estimated_duration :: int
  pa_actual_duration :: int
  pa_duration_variance_percent :: real
  pa_profit_margin :: real
  pa_weather_impact_score :: real
  pa_customer_satisfaction_score :: real

record customer_analytics =
  ca_customer_id :: int
  ca_lifetime_value :: real
  ca_acquisition_cost :: int
  ca_retention_score :: int
  ca_churn_probability :: real
  ca_referral_count :: int
  ca_project_count :: nat
  ca_average_project_value :: real
  ca_last_interaction_date :: timestamp

record weather_impact_analytics =
  wa_weather_event_id :: int
  wa_leads_generated :: int
  wa_projects_created :: int
  wa_revenue_impact :: real
  wa_affected_zip_codes :: string
  wa_impact_start_date :: timestamp
  wa_impact_end_date :: timestamp

record prediction =
  pr_model_name :: string
  pr_entity_type :: string
  pr_entity_id :: int
  pr_prediction_type :: string
  pr_prediction_value :: real
  pr_confidence_score :: real
  pr_features_used :: "(string \<times> int) list"
  pr_prediction_date :: timestamp
  pr_expiration_date :: timestamp

record aggregate =
  ag_metric_name :: string
  ag_aggregation_level :: string
  ag_period_start :: "timestamp option"
  ag_period_end :: "timestamp option"
  ag_value :: real
  ag_dimension :: "string option"
  ag_dimension_value :: "string option"

text \<open>
  The database and the environment. \<open>other_tables\<close> gives, for every further table of the
  database that has an \<open>id\<close> column, the ids of its rows: \<open>generatePrediction\<close> builds the
  table name from its argument. The generic row carries \<open>created_at\<close> for every table; of the
  derived tables only \<open>project_analytics\<close> is ever read through it.
\<close>

record world =
  leads :: "lead list"
  projects :: "project list"
  customers :: "customer list"
  weather_events :: "weather_event list"
  business_metrics :: "business_metric list"
  other_tables :: "string \<Rightarrow> int list option"
  lead_analytics :: "lead_analytics row list"
  project_analytics :: "project_analytics row list"
  customer_analytics :: "customer_analytics row list"
  weather_impact_analytics :: "weather_impact_analytics row list"
  predictive_model_results :: "prediction row list"
  time_based_aggregates :: "aggregate row list"
  faults :: "bool list"
  randoms :: "real list"
  now :: timestamp

text \<open>One database call: \<open>True\<close> when the call fails; an exhausted schedule never fails.\<close>

definition db_call :: "world \<Rightarrow> bool \<times> world" where
  "db_call w = (case faults w of [] \<Rightarrow> (False, w) | f # fs \<Rightarrow> (f, w\<lparr>faults := fs\<rparr>))"

text \<open>\<open>Math.random()\<close>: the next draw of the schedule (0 once it is exhausted).\<close>

definition Math_random :: "world \<Rightarrow> real \<times> world" where
  "Math_random w = (case randoms w of [] \<Rightarrow> (0, w) | r # rs \<Rightarrow> (r, w\<lparr>randoms := rs\<rparr>))"

subsection \<open>processLeadData\<close>

definition sourceBonus :: "string option \<Rightarrow> real" where
  "sourceBonus src =
     (if truthy src then
        (let s = toLowerCase (the src) in
         if s = ''referral'' then 20
         else if s = ''website'' then 15
         else if s = ''google'' then 10
         else if s = ''facebook'' then 5
         else 0)
      else 0)"

definition interestBonus :: "string option \<Rightarrow> real" where
  "interestBonus si =
     (if truthy si then
        (if includesStr (toLowerCase (the si)) ''roof replacement'' then 15
         else if includesStr (toLowerCase (the si)) ''repair'' then 10
         else if includesStr (toLowerCase (the si)) ''inspection'' then 5
         else 0)
      else 0)"

definition leadScore :: "lead \<Rightarrow> real" where
  "leadScore ld = min 100 (50 + sourceBonus (l_source ld) + interestBonus (l_service_interest ld))"

definition acquisitionSource :: "lead \<Rightarrow> string" where
  "acquisitionSource ld = (if truthy (l_source ld) then the (l_source ld) else ''Unknown'')"

definition leadAcquisitionCost :: "string \<Rightarrow> real" where
  "leadAcquisitionCost src =
     (let s = toLowerCase src in
      if s = ''google'' then 75
      else if s = ''facebook'' then 50
      else if s = ''website'' then 25
      else if s = ''referral'' then 100
      else 40)"

definition leadAnalytics :: "lead \<Rightarrow> lead_analytics" where
  "leadAnalytics ld =
     \<lparr>la_lead_id = l_id ld,
      la_acquisition_source = acquisitionSource ld,
      la_acquisition_cost = leadAcquisitionCost (acquisitionSource ld),
      la_lead_score = leadScore ld,
      la_conversion_probability = leadScore ld / 100 * 0.8,
      la_days_to_conversion = None,
      la_converted_to_customer = False,
      la_conversion_date = None\<rparr>"

text \<open>
  The reconciler returns the computed object and, on the insert path only, the id the row
  was given (\<open>leadAnalytics.id = this.lastID\<close>).
\<close>

definition processLeadData :: "lead \<Rightarrow> world \<Rightarrow> (error + lead_analytics \<times> int option) \<times> world" where
  "processLeadData ld w =
     (let (err, w1) = db_call w in
      if err then (Inl StoreError, w1)
      else
        let row = db_get (\<lambda>c. la_lead_id c = l_id ld) (lead_analytics w1);
            a = leadAnalytics ld
        in
          (case row of
              Some _ \<Rightarrow>
                (let (err2, w2) = db_call w1 in
                 if err2 then (Inl StoreError, w2)
                 else
                   (Inr (a, None),
                    w2\<lparr>lead_analytics :=
                         db_update (\<lambda>r. la_lead_id (cols r) = l_id ld)
                           (\<lambda>c. c\<lparr>la_acquisition_source := la_acquisition_source a,
                                   la_acquisition_cost := la_acquisition_cost a,
                                   la_lead_score := la_lead_score a,
                                   la_conversion_probability := la_conversion_probability a\<rparr>)
                           (lead_analytics w2)\<rparr>))
            | None \<Rightarrow>
                (let (err2, w2) = db_call w1 in
                 if err2 then (Inl StoreError, w2)
                 else
                   (Inr (a, Some (lastID (lead_analytics w2))),
                    w2\<lparr>lead_analytics := db_insert (now w2) a (lead_analytics w2)\<rparr>))))"

subsection \<open>processProjectData\<close>

definition estimatedDuration :: "string option \<Rightarrow> int" where
  "estimatedDuration ty =
     (if truthy ty then
        (if includesStr (toLowerCase (the ty)) ''replacement'' then 21
         else if includesStr (toLowerCase (the ty)) ''repair'' then 7
         else 14)
      else 14)"

text \<open>
  \<open>Math.ceil(Math.abs(endDate - startDate) / (1000 * 60 * 60 * 24))\<close> when both dates are
  truthy, the estimate otherwise.
\<close>

definition actualDuration :: "project \<Rightarrow> int" where
  "actualDuration p =
     (case (p_start_date p, p_end_date p) of
        (Some startDate, Some endDate) \<Rightarrow>
          (let diffTime = \<bar>endDate - startDate\<bar>
           in \<lceil>real_of_int diffTime / (1000 * 60 * 60 * 24)\<rceil>)
      | _ \<Rightarrow> estimatedDuration (p_project_type p))"

text \<open>
  The computed object; \<open>r1\<close> and \<open>r2\<close> are the two draws of \<open>Math.random()\<close>, in the order
  the source makes them (actual cost, then customer satisfaction).
\<close>

definition projectAnalytics :: "project \<Rightarrow> real \<Rightarrow> real \<Rightarrow> project_analytics" where
  "projectAnalytics p r1 r2 =
     (let estimatedCost = p_contract_amount p * 0.6;
          actualCost = estimatedCost * (r1 * 0.3 + 0.85);
          costVariancePercent = ((actualCost - estimatedCost) / estimatedCost) * 100;
          estDuration = estimatedDuration (p_project_type p);
          actDuration = actualDuration p;
          durationVariancePercent =
            ((real_of_int actDuration - real_of_int estDuration) / real_of_int estDuration) * 100;
          profitMargin = (p_contract_amount p - actualCost) / p_contract_amount p;
          customerSatisfactionScore = r2 * 2 + 3
      in \<lparr>pa_project_id = p_id p,
          pa_estimated_cost = estimatedCost,
          pa_actual_cost = actualCost,
          pa_cost_variance_percent = costVariancePercent,
          pa_estimated_duration = estDuration,
          pa_actual_duration = actDuration,
          pa_duration_variance_percent = durationVariancePercent,
          pa_profit_margin = profitMargin,
          pa_weather_impact_score = 0,
          pa_customer_satisfaction_score = customerSatisfactionScore\<rparr>)"

definition processProjectData ::
  "project \<Rightarrow> world \<Rightarrow> (error + project_analytics \<times> int option) \<times> world" where
  "processProjectData p w =
     (let (err, w1) = db_call w in
      if err then (Inl StoreError, w1)
      else
        let row = db_get (\<lambda>c. pa_project_id c = p_id p) (project_analytics w1);
            (r1, w1a) = Math_random w1;
            (r2, w1b) = Math_random w1a;
            a = projectAnalytics p r1 r2
        in
          (case row of
              Some _ \<Rightarrow>
                (let (err2, w2) = db_call w1b in
                 if err2 then (Inl StoreError, w2)
                 else
                   (Inr (a, None),
                    w2\<lparr>project_analytics :=
                         db_update (\<lambda>r. pa_project_id (cols r) = p_id p)
                           (\<lambda>c. c\<lparr>pa_estimated_cost := pa_estimated_cost a,
                                   pa_actual_cost := pa_actual_cost a,
                                   pa_cost_variance_percent := pa_cost_variance_percent a,
                                   pa_estimated_duration := pa_estimated_duration a,
                                   pa_actual_duration := pa_actual_duration a,
                                   pa_duration_variance_percent := pa_duration_variance_percent a,
                                   pa_profit_margin := pa_profit_margin a,
                                   pa_customer_satisfaction_score :=
                                     pa_customer_satisfaction_score a\<rparr>)
                           (project_analytics w2)\<rparr>))
            | None \<Rightarrow>
                (let (err2, w2) = db_call w1b in
                 if err2 then (Inl StoreError, w2)
                 else
                   (Inr (a, Some (lastID (project_analytics w2))),
                    w2\<lparr>project_analytics := db_insert (now w2) a (project_analytics w2)\<rparr>))))"

subsection \<open>processCustomerData\<close>

text \<open>\<open>a || b\<close> on two date columns.\<close>

definition orElse :: "timestamp option \<Rightarrow> timestamp option \<Rightarrow> timestamp option" where
  "orElse a b = (case a of Some x \<Rightarrow> Some x | None \<Rightarrow> b)"

text \<open>
  The callback of \<open>projects.reduce(..., {})\<close>: the accumulator \<open>None\<close> is the initial empty
  object, which has neither date.
\<close>

definition laterProject :: "project option \<Rightarrow> project \<Rightarrow> project option" where
  "laterProject latest p =
     (let projectDate = orElse (p_end_date p) (p_start_date p);
          latestDate = (case latest of None \<Rightarrow> None
                        | Some l \<Rightarrow> orElse (p_end_date l) (p_start_date l))
      in case latestDate of
           None \<Rightarrow> Some p
         | Some ld \<Rightarrow>
             (case projectDate of
                None \<Rightarrow> latest
              | Some pd \<Rightarrow> if pd > ld then Some p else latest))"

definition retentionScore :: "project list \<Rightarrow> timestamp \<Rightarrow> int" where
  "retentionScore ps t =
     (let projectCount = length ps;
          s0 = 50;
          s1 = (if projectCount > 3 then s0 + 30 else if projectCount > 1 then s0 + 15 else s0);
          s2 = (if length ps > 0 then
                  (let lastProject = foldl laterProject None ps;
                       lastProjectDate = (case lastProject of None \<Rightarrow> None
                                          | Some l \<Rightarrow> orElse (p_end_date l) (p_start_date l))
                   in case lastProjectDate of
                        None \<Rightarrow> s1
                      | Some d \<Rightarrow>
                          (let daysSinceLastProject = (t - d) div (1000 * 60 * 60 * 24)
                           in if daysSinceLastProject < 90 then s1 + 20
                              else if daysSinceLastProject < 180 then s1 + 10
                              else if daysSinceLastProject > 365 then s1 - 10
                              else s1))
                else s1)
      in min 100 (max 0 s2))"

definition churnProbability :: "int \<Rightarrow> real" where
  "churnProbability rs = max 0 (1 - (real_of_int rs / 100) * 0.9)"

text \<open>
  The computed object; \<open>r1\<close> and \<open>r2\<close> are the draws for the acquisition cost and the referral
  count, \<open>t\<close> is the clock.
\<close>

definition customerAnalytics ::
  "customer \<Rightarrow> project list \<Rightarrow> real \<Rightarrow> real \<Rightarrow> timestamp \<Rightarrow> customer_analytics" where
  "customerAnalytics c ps r1 r2 t =
     (let projectCount = length ps;
          totalProjectValue = foldl (\<lambda>total p. total + p_contract_amount p) 0 ps;
          averageProjectValue =
            (if projectCount > 0 then totalProjectValue / real projectCount else 0);
          repeatBusinessFactor = 0.3;
          lifetimeValue = averageProjectValue * real projectCount * (1 + repeatBusinessFactor);
          acquisitionCost = \<lfloor>r1 * 300\<rfloor> + 100;
          rs = retentionScore ps t;
          referralCount = \<lfloor>r2 * 3\<rfloor>
      in \<lparr>ca_customer_id = c_id c,
          ca_lifetime_value = lifetimeValue,
          ca_acquisition_cost = acquisitionCost,
          ca_retention_score = rs,
          ca_churn_probability = churnProbability rs,
          ca_referral_count = referralCount,
          ca_project_count = projectCount,
          ca_average_project_value = averageProjectValue,
          ca_last_interaction_date = t\<rparr>)"

definition processCustomerData ::
  "customer \<Rightarrow> world \<Rightarrow> (error + customer_analytics \<times> int option) \<times> world" where
  "processCustomerData c w =
     (let (err, w1) = db_call w in
      if err then (Inl StoreError, w1)
      else
        let ps = filter (\<lambda>p. p_customer_id p = c_id c) (projects w1);
            (r1, w1a) = Math_random w1;
            (r2, w1b) = Math_random w1a;
            a = customerAnalytics c ps r1 r2 (now w1b);
            (err1, w2) = db_call w1b
        in
          if err1 then (Inl StoreError, w2)
          else
            (case db_get (\<lambda>x. ca_customer_id x = c_id c) (customer_analytics w2) of
                Some _ \<Rightarrow>
                  (let (err2, w3) = db_call w2 in
                   if err2 then (Inl StoreError, w3)
                   else
                     (Inr (a, None),
                      w3\<lparr>customer_analytics :=
                           db_update (\<lambda>r. ca_customer_id (cols r) = c_id c)
                             (\<lambda>x. x\<lparr>ca_lifetime_value := ca_lifetime_value a,
                                     ca_acquisition_cost := ca_acquisition_cost a,
                                     ca_retention_score := ca_retention_score a,
                                     ca_churn_probability := ca_churn_probability a,
                                     ca_referral_count := ca_referral_count a,
                                     ca_project_count := ca_project_count a,
                                     ca_average_project_value := ca_average_project_value a,
                                     ca_last_interaction_date := ca_last_interaction_date a\<rparr>)
                             (customer_analytics w3)\<rparr>))
              | None \<Rightarrow>
                  (let (err2, w3) = db_call w2 in
                   if err2 then (Inl StoreError, w3)
                   else
                     (Inr (a, Some (lastID (customer_analytics w3))),
                      w3\<lparr>customer_analytics := db_insert (now w3) a (customer_analytics w3)\<rparr>))))"

subsection \<open>processWeatherEventData\<close>

definition typeMultiplier :: "string option \<Rightarrow> real" where
  "typeMultiplier ty =
     (case ty of
        None \<Rightarrow> 3
      | Some s \<Rightarrow>
          (let t = toLowerCase s in
           if t = ''hail storm'' then 5
           else if t = ''tornado'' then 8
           else if t = ''hurricane'' then 10
           else if t = ''wind storm'' then 4
           else if t = ''heavy rain'' then 2
           else 3))"

definition weatherImpactAnalytics :: "weather_event \<Rightarrow> weather_impact_analytics" where
  "weatherImpactAnalytics e =
     (let leadsGenerated = \<lfloor>w_severity e * typeMultiplier (w_event_type e)\<rfloor>;
          projectsCreated = \<lfloor>real_of_int leadsGenerated * 0.4\<rfloor>;
          avgProjectValue = 8500;
          revenueImpact = real_of_int projectsCreated * avgProjectValue;
          affectedZipCodes = (if truthy (w_zip e) then the (w_zip e) else [])
      in \<lparr>wa_weather_event_id = w_id e,
          wa_leads_generated = leadsGenerated,
          wa_projects_created = projectsCreated,
          wa_revenue_impact = revenueImpact,
          wa_affected_zip_codes = affectedZipCodes,
          wa_impact_start_date = w_event_date e,
          wa_impact_end_date = w_event_date e + 30 * 24 * 60 * 60 * 1000\<rparr>)"

definition processWeatherEventData ::
  "weather_event \<Rightarrow> world \<Rightarrow> (error + weather_impact_analytics \<times> int option) \<times> world" where
  "processWeatherEventData e w =
     (let (err, w1) = db_call w in
      if err then (Inl StoreError, w1)
      else
        let row = db_get (\<lambda>c. wa_weather_event_id c = w_id e) (weather_impact_analytics w1);
            a = weatherImpactAnalytics e
        in
          (case row of
              Some _ \<Rightarrow>
                (let (err2, w2) = db_call w1 in
                 if err2 then (Inl StoreError, w2)
                 else
                   (Inr (a, None),
                    w2\<lparr>weather_impact_analytics :=
                         db_update (\<lambda>r. wa_weather_event_id (cols r) = w_id e)
                           (\<lambda>c. c\<lparr>wa_leads_generated := wa_leads_generated a,
                                   wa_projects_created := wa_projects_created a,
                                   wa_revenue_impact := wa_revenue_impact a,
                                   wa_affected_zip_codes := wa_affected_zip_codes a,
                                   wa_impact_start_date := wa_impact_start_date a,
                                   wa_impact_end_date := wa_impact_end_date a\<rparr>)
                           (weather_impact_analytics w2)\<rparr>))
            | None \<Rightarrow>
                (let (err2, w2) = db_call w1 in
                 if err2 then (Inl StoreError, w2)
                 else
                   (Inr (a, Some (lastID (weather_impact_analytics w2))),
                    w2\<lparr>weather_impact_analytics :=
                         db_insert (now w2) a (weather_impact_analytics w2)\<rparr>))))"

subsection \<open>savePrediction and generatePrediction\<close>

definition sameKey :: "string \<Rightarrow> string \<Rightarrow> int \<Rightarrow> string \<Rightarrow> prediction \<Rightarrow> bool" where
  "sameKey modelName entityType entityId predictionType c =
     (pr_model_name c = modelName \<and> pr_entity_type c = entityType \<and>
      pr_entity_id c = entityId \<and> pr_prediction_type c = predictionType)"

text \<open>
  \<open>expirationDate.setDate(expirationDate.getDate() + expirationDays)\<close> is taken as that many
  days of 24 hours after the clock.
\<close>

definition savePrediction ::
  "string \<Rightarrow> string \<Rightarrow> int \<Rightarrow> string \<Rightarrow> real \<Rightarrow> real \<Rightarrow> (string \<times> int) list \<Rightarrow> int \<Rightarrow>
   world \<Rightarrow> (error + prediction \<times> int) \<times> world" where
  "savePrediction modelName entityType entityId predictionType predictionValue confidenceScore
       featuresUsed expirationDays w =
     (let expirationDate = now w + expirationDays * (24 * 60 * 60 * 1000);
          (err, w1) = db_call w
      in
        if err then (Inl StoreError, w1)
        else
          let row = db_get (sameKey modelName entityType entityId predictionType)
                      (predictive_model_results w1);
              p = \<lparr>pr_model_name = modelName,
                   pr_entity_type = entityType,
                   pr_entity_id = entityId,
                   pr_prediction_type = predictionType,
                   pr_prediction_value = predictionValue,
                   pr_confidence_score = confidenceScore,
                   pr_features_used = featuresUsed,
                   pr_prediction_date = now w1,
                   pr_expiration_date = expirationDate\<rparr>
          in
            (case row of
                Some r0 \<Rightarrow>
                  (let (err2, w2) = db_call w1 in
                   if err2 then (Inl StoreError, w2)
                   else
                     (Inr (p, row_id r0),
                      w2\<lparr>predictive_model_results :=
                           db_update (\<lambda>r. row_id r = row_id r0)
                             (\<lambda>c. c\<lparr>pr_prediction_value := pr_prediction_value p,
                                     pr_confidence_score := pr_confidence_score p,
                                     pr_features_used := pr_features_used p,
                                     pr_prediction_date := pr_prediction_date p,
                                     pr_expiration_date := pr_expiration_date p\<rparr>)
                             (predictive_model_results w2)\<rparr>))
              | None \<Rightarrow>
                  (let (err2, w2) = db_call w1 in
                   if err2 then (Inl StoreError, w2)
                   else
                     (Inr (p, lastID (predictive_model_results w2)),
                      w2\<lparr>predictive_model_results :=
                           db_insert (now w2) p (predictive_model_results w2)\<rparr>))))"

text \<open>
  \<open>SELECT * FROM ${entityTable} WHERE id = ?\<close>: \<open>None\<close> when the statement fails because
  the database has no such table, otherwise whether a row with that id exists.
\<close>

definition entityExists :: "world \<Rightarrow> string \<Rightarrow> int \<Rightarrow> bool option" where
  "entityExists w entityTable i =
     (if entityTable = ''leads'' then Some (i \<in> set (map l_id (leads w)))
      else if entityTable = ''customers'' then Some (i \<in> set (map c_id (customers w)))
      else if entityTable = ''projects'' then Some (i \<in> set (map p_id (projects w)))
      else if entityTable = ''weather_events'' then Some (i \<in> set (map w_id (weather_events w)))
      else if entityTable = ''lead_analytics''
        then Some (i \<in> set (map row_id (lead_analytics w)))
      else if entityTable = ''project_analytics''
        then Some (i \<in> set (map row_id (project_analytics w)))
      else if entityTable = ''customer_analytics''
        then Some (i \<in> set (map row_id (customer_analytics w)))
      else if entityTable = ''weather_impact_analytics''
        then Some (i \<in> set (map row_id (weather_impact_analytics w)))
      else if entityTable = ''predictive_model_results''
        then Some (i \<in> set (map row_id (predictive_model_results w)))
      else if entityTable = ''time_based_aggregates''
        then Some (i \<in> set (map row_id (time_based_aggregates w)))
      else map_option (\<lambda>ids. i \<in> set ids) (other_tables w entityTable))"

text \<open>
  The three named strategies: each reads the prior analytics row and, when the read fails
  or finds nothing (\<open>err || !leadAnalytics\<close>), draws a basic prediction instead. The result
  is the prediction value, the confidence score and the features used.
\<close>

definition leadConversionStrategy ::
  "int \<Rightarrow> world \<Rightarrow> (real \<times> real \<times> (string \<times> int) list) \<times> world" where
  "leadConversionStrategy entityId w =
     (let (err, w1) = db_call w in
      case (if err then None else db_get (\<lambda>c. la_lead_id c = entityId) (lead_analytics w1)) of
        None \<Rightarrow>
          (let (r, w2) = Math_random w1
           in ((r * 0.7 + 0.1, 0.6, [(''basic_lead_info'', 1)]), w2))
      | Some a \<Rightarrow>
          ((la_conversion_probability (cols a), 0.8,
            [(''lead_score'', 1), (''acquisition_source'', 1), (''service_interest'', 1)]), w1))"

definition customerChurnStrategy ::
  "int \<Rightarrow> world \<Rightarrow> (real \<times> real \<times> (string \<times> int) list) \<times> world" where
  "customerChurnStrategy entityId w =
     (let (err, w1) = db_call w in
      case (if err then None
            else db_get (\<lambda>c. ca_customer_id c = entityId) (customer_analytics w1)) of
        None \<Rightarrow>
          (let (r, w2) = Math_random w1
           in ((r * 0.4 + 0.1, 0.6, [(''basic_customer_info'', 1)]), w2))
      | Some a \<Rightarrow>
          ((ca_churn_probability (cols a), 0.85,
            [(''retention_score'', 1), (''project_count'', 1), (''lifetime_value'', 1),
             (''last_interaction_date'', 1)]), w1))"

definition projectCostStrategy ::
  "int \<Rightarrow> world \<Rightarrow> (real \<times> real \<times> (string \<times> int) list) \<times> world" where
  "projectCostStrategy entityId w =
     (let (err, w1) = db_call w in
      case (if err then None
            else db_get (\<lambda>c. pa_project_id c = entityId) (project_analytics w1)) of
        None \<Rightarrow>
          (let (r, w2) = Math_random w1
           in ((r * 0.5 + 0.2, 0.7, [(''basic_project_info'', 1)]), w2))
      | Some a \<Rightarrow>
          (((if pa_cost_variance_percent (cols a) > 0 then 0.7 else 0.3), 0.8,
            [(''estimated_cost'', 1), (''project_type'', 1), (''historical_variance'', 1)]), w1))"

definition genericStrategy :: "world \<Rightarrow> (real \<times> real \<times> (string \<times> int) list) \<times> world" where
  "genericStrategy w =
     (let (r, w1) = Math_random w in ((r, 0.5, [(''generic_features'', 1)]), w1))"

definition strategy ::
  "string \<Rightarrow> string \<Rightarrow> int \<Rightarrow> world \<Rightarrow> (real \<times> real \<times> (string \<times> int) list) \<times> world" where
  "strategy modelName predictionType entityId w =
     (let k = modelName @ ''_'' @ predictionType in
      if k = ''lead_conversion_model_conversion_probability''
        then leadConversionStrategy entityId w
      else if k = ''customer_churn_model_churn_probability''
        then customerChurnStrategy entityId w
      else if k = ''project_cost_model_cost_overrun_probability''
        then projectCostStrategy entityId w
      else genericStrategy w)"

definition generatePrediction ::
  "string \<Rightarrow> string \<Rightarrow> int \<Rightarrow> string \<Rightarrow> world \<Rightarrow> (error + prediction \<times> int) \<times> world" where
  "generatePrediction modelName entityType entityId predictionType w =
     (let entityTable = entityType @ ''s'';
          (err, w1) = db_call w
      in
        if err then (Inl StoreError, w1)
        else
          (case entityExists w1 entityTable entityId of
              None \<Rightarrow> (Inl StoreError, w1)
            | Some False \<Rightarrow> (Inl NotFoundError, w1)
            | Some True \<Rightarrow>
                (let expirationDays = 30;
                     ((predictionValue, confidenceScore, featuresUsed), w2) =
                        strategy modelName predictionType entityId w1
                 in savePrediction modelName entityType entityId predictionType predictionValue
                      confidenceScore featuresUsed expirationDays w2)))"

subsection \<open>generateTimeBasedAggregates\<close>

definition dateFormat :: "string \<Rightarrow> string option" where
  "dateFormat aggregationLevel =
     (if aggregationLevel = ''daily'' then Some ''%Y-%m-%d''
      else if aggregationLevel = ''weekly'' then Some ''%Y-%W''
      else if aggregationLevel = ''monthly'' then Some ''%Y-%m''
      else if aggregationLevel = ''quarterly'' then Some ''%Y-Q%Q''
      else if aggregationLevel = ''yearly'' then Some ''%Y''
      else None)"

text \<open>
  The SQL of the six queries. \<open>trunc\<close> stands for SQLite's \<open>strftime\<close> with the chosen format:
  it maps a nullable timestamp to the period it falls in, and periods are ordered
  (\<open>ORDER BY period\<close>). \<open>MIN\<close> and \<open>MAX\<close> skip nulls.
\<close>

definition sqlMin :: "timestamp option list \<Rightarrow> timestamp option" where
  "sqlMin xs = (case List.map_filter id xs of [] \<Rightarrow> None | y # ys \<Rightarrow> Some (fold min ys y))"

definition sqlMax :: "timestamp option list \<Rightarrow> timestamp option" where
  "sqlMax xs = (case List.map_filter id xs of [] \<Rightarrow> None | y # ys \<Rightarrow> Some (fold max ys y))"

definition groupBy :: "('r \<Rightarrow> 'p::linorder) \<Rightarrow> 'r list \<Rightarrow> 'r list list" where
  "groupBy period rs =
     map (\<lambda>k. filter (\<lambda>r. period r = k) rs) (sort (remdups (map period rs)))"

type_synonym bucket = "timestamp option \<times> timestamp option \<times> real"

definition metricQuery ::
  "(string \<Rightarrow> timestamp option \<Rightarrow> 'p::linorder) \<Rightarrow> string \<Rightarrow> string \<Rightarrow> world \<Rightarrow>
   bucket list option" where
  "metricQuery strftime metricName fmt w =
     (let trunc = strftime fmt in
      if metricName = ''revenue'' \<or> metricName = ''profit'' then
        Some (map (\<lambda>g. (sqlMin (map bm_start_date g), sqlMax (map bm_end_date g),
                         sum_list (map bm_metric_value g)))
                (groupBy (\<lambda>m. trunc (bm_end_date m))
                   (filter (\<lambda>m. bm_metric_name m = metricName) (business_metrics w))))
      else if metricName = ''leads'' then
        Some (map (\<lambda>g. (sqlMin (map l_created_at g), sqlMax (map l_created_at g),
                         real (length g)))
                (groupBy (\<lambda>l. trunc (l_created_at l)) (leads w)))
      else if metricName = ''projects'' then
        Some (map (\<lambda>g. (sqlMin (map p_created_at g), sqlMax (map p_created_at g),
                         real (length g)))
                (groupBy (\<lambda>p. trunc (p_created_at p)) (projects w)))
      else if metricName = ''lead_conversion_rate'' then
        Some (map (\<lambda>g. (sqlMin (map (\<lambda>r. la_conversion_date (cols r)) g),
                         sqlMax (map (\<lambda>r. la_conversion_date (cols r)) g),
                         real (length (filter (\<lambda>r. la_converted_to_customer (cols r)) g)) * 100.0
                           / real (length g)))
                (groupBy (\<lambda>r. trunc (la_conversion_date (cols r)))
                   (filter (\<lambda>r. la_conversion_date (cols r) \<noteq> None) (lead_analytics w))))
      else if metricName = ''project_profit_margin'' then
        Some (map (\<lambda>g. (sqlMin (map (\<lambda>r. Some (created_at r)) g),
                         sqlMax (map (\<lambda>r. Some (created_at r)) g),
                         sum_list (map (\<lambda>r. pa_profit_margin (cols r)) g) / real (length g)
                           * 100))
                (groupBy (\<lambda>r. trunc (Some (created_at r))) (project_analytics w)))
      else None)"

definition mkAggregate :: "string \<Rightarrow> string \<Rightarrow> bucket \<Rightarrow> aggregate" where
  "mkAggregate metricName aggregationLevel b =
     (case b of (period_start, period_end, v) \<Rightarrow>
        \<lparr>ag_metric_name = metricName,
         ag_aggregation_level = aggregationLevel,
         ag_period_start = period_start,
         ag_period_end = period_end,
         ag_value = v,
         ag_dimension = None,
         ag_dimension_value = None\<rparr>)"

text \<open>
  The inserts of \<open>rows.map(...)\<close>: one \<open>db.run\<close> per bucket, all of them issued whatever the
  outcome of the others. An insert fails when its database call fails or when the row
  violates \<open>period_start TIMESTAMP NOT NULL\<close> or \<open>period_end TIMESTAMP NOT NULL\<close>. The result
  is whether some insert failed (\<open>Promise.all\<close> then rejects) and the rows pushed to
  \<open>aggregates\<close>.
\<close>

fun insertAggregates :: "aggregate list \<Rightarrow> world \<Rightarrow> (bool \<times> aggregate row list) \<times> world" where
  "insertAggregates [] w = ((False, []), w)"
| "insertAggregates (a # as) w =
     (let (err, w1) = db_call w in
      if err \<or> ag_period_start a = None \<or> ag_period_end a = None then
        (let ((failed, rs), w2) = insertAggregates as w1 in ((True, rs), w2))
      else
        (let r = \<lparr>row_id = lastID (time_based_aggregates w1), created_at = now w1, cols = a\<rparr>;
             ((failed, rs), w2) =
                insertAggregates as
                  (w1\<lparr>time_based_aggregates := db_insert (now w1) a (time_based_aggregates w1)\<rparr>)
         in ((failed, r # rs), w2)))"

definition generateTimeBasedAggregates ::
  "(string \<Rightarrow> timestamp option \<Rightarrow> 'p::linorder) \<Rightarrow> string \<Rightarrow> string \<Rightarrow> world \<Rightarrow>
   (error + aggregate row list) \<times> world" where
  "generateTimeBasedAggregates strftime metricName aggregationLevel w =
     (case dateFormat aggregationLevel of
        None \<Rightarrow> (Inl (ValidationError (''Invalid aggregation level: '' @ aggregationLevel)), w)
      | Some fmt \<Rightarrow>
          (case metricQuery strftime metricName fmt w of
             None \<Rightarrow> (Inl (ValidationError (''Unsupported metric: '' @ metricName)), w)
           | Some rows \<Rightarrow>
               (let (err, w1) = db_call w in
                if err then (Inl StoreError, w1)
                else
                  (let ((failed, aggregates), w2) =
                          insertAggregates (map (mkAggregate metricName aggregationLevel) rows) w1
                   in if failed then (Inl StoreError, w2) else (Inr aggregates, w2)))))"

subsection \<open>processAllData\<close>

record summary =
  leadsProcessed :: nat
  projectsProcessed :: nat
  customersProcessed :: nat
  weatherEventsProcessed :: nat
  predictionsGenerated :: nat
  aggregatesGenerated :: nat

text \<open>\<open>await\<close> in sequence: the first rejection ends the run.\<close>

definition andThen ::
  "(error + 'a) \<times> world \<Rightarrow> ('a \<Rightarrow> world \<Rightarrow> (error + 'b) \<times> world) \<Rightarrow> (error + 'b) \<times> world" where
  "andThen m f = (case m of (Inl e, w) \<Rightarrow> (Inl e, w) | (Inr x, w) \<Rightarrow> f x w)"

fun forEach ::
  "('a \<Rightarrow> world \<Rightarrow> (error + 'b) \<times> world) \<Rightarrow> 'a list \<Rightarrow> world \<Rightarrow> (error + unit) \<times> world" where
  "forEach f [] w = (Inr (), w)"
| "forEach f (x # xs) w = andThen (f x w) (\<lambda>_ w'. forEach f xs w')"

text \<open>\<open>db.all('SELECT * FROM ...')\<close> on a table of the primary store.\<close>

definition db_all :: "(world \<Rightarrow> 'a list) \<Rightarrow> world \<Rightarrow> (error + 'a list) \<times> world" where
  "db_all table w = (let (err, w1) = db_call w in
                     if err then (Inl StoreError, w1) else (Inr (table w1), w1))"

definition processAllData ::
  "(string \<Rightarrow> timestamp option \<Rightarrow> 'p::linorder) \<Rightarrow> world \<Rightarrow> (error + summary) \<times> world" where
  "processAllData strftime w0 =
     andThen (db_all leads w0) (\<lambda>ls w.
     andThen (forEach processLeadData ls w) (\<lambda>_ w.
     andThen (db_all projects w) (\<lambda>ps w.
     andThen (forEach processProjectData ps w) (\<lambda>_ w.
     andThen (db_all customers w) (\<lambda>cs w.
     andThen (forEach processCustomerData cs w) (\<lambda>_ w.
     andThen (db_all weather_events w) (\<lambda>es w.
     andThen (forEach processWeatherEventData es w) (\<lambda>_ w.
     andThen (forEach (\<lambda>l. generatePrediction ''lead_conversion_model'' ''lead'' (l_id l)
                              ''conversion_probability'') (take 10 ls) w) (\<lambda>_ w.
     andThen (forEach (\<lambda>c. generatePrediction ''customer_churn_model'' ''customer'' (c_id c)
                              ''churn_probability'') (take 5 cs) w) (\<lambda>_ w.
     andThen (forEach (\<lambda>p. generatePrediction ''project_cost_model'' ''project'' (p_id p)
                              ''cost_overrun_probability'') (take 5 ps) w) (\<lambda>_ w.
     andThen (generateTimeBasedAggregates strftime ''revenue'' ''monthly'' w) (\<lambda>_ w.
     andThen (generateTimeBasedAggregates strftime ''profit'' ''monthly'' w) (\<lambda>_ w.
     andThen (generateTimeBasedAggregates strftime ''leads'' ''monthly'' w) (\<lambda>_ w.
     andThen (generateTimeBasedAggregates strftime ''projects'' ''monthly'' w) (\<lambda>_ w.
     andThen (generateTimeBasedAggregates strftime ''lead_conversion_rate'' ''monthly'' w) (\<lambda>_ w.
     andThen (generateTimeBasedAggregates strftime ''project_profit_margin'' ''monthly'' w) (\<lambda>_ w.
       (Inr \<lparr>leadsProcessed = length ls,
             projectsProcessed = length ps,
             customersProcessed = length cs,
             weatherEventsProcessed = length es,
             predictionsGenerated = 10 + 5 + 5,
             aggregatesGenerated = 6\<rparr>, w))))))))))))))))))"

subsection \<open>The writes of the reconcilers, named\<close>

text \<open>
  The column assignments of the five \<open>UPDATE\<close> statements, and the check-then-update-or-insert
  the four entity reconcilers perform, as functions on a table.
\<close>

definition leadUpdate :: "lead_analytics \<Rightarrow> lead_analytics \<Rightarrow> lead_analytics" where
  "leadUpdate a = (\<lambda>c. c\<lparr>la_acquisition_source := la_acquisition_source a,
                          la_acquisition_cost := la_acquisition_cost a,
                          la_lead_score := la_lead_score a,
                          la_conversion_probability := la_conversion_probability a\<rparr>)"

definition projectUpdate :: "project_analytics \<Rightarrow> project_analytics \<Rightarrow> project_analytics" where
  "projectUpdate a = (\<lambda>c. c\<lparr>pa_estimated_cost := pa_estimated_cost a,
                             pa_actual_cost := pa_actual_cost a,
                             pa_cost_variance_percent := pa_cost_variance_percent a,
                             pa_estimated_duration := pa_estimated_duration a,
                             pa_actual_duration := pa_actual_duration a,
                             pa_duration_variance_percent := pa_duration_variance_percent a,
                             pa_profit_margin := pa_profit_margin a,
                             pa_customer_satisfaction_score := pa_customer_satisfaction_score a\<rparr>)"

definition customerUpdate :: "customer_analytics \<Rightarrow> customer_analytics \<Rightarrow> customer_analytics" where
  "customerUpdate a = (\<lambda>x. x\<lparr>ca_lifetime_value := ca_lifetime_value a,
                              ca_acquisition_cost := ca_acquisition_cost a,
                              ca_retention_score := ca_retention_score a,
                              ca_churn_probability := ca_churn_probability a,
                              ca_referral_count := ca_referral_count a,
                              ca_project_count := ca_project_count a,
                              ca_average_project_value := ca_average_project_value a,
                              ca_last_interaction_date := ca_last_interaction_date a\<rparr>)"

definition weatherUpdate ::
  "weather_impact_analytics \<Rightarrow> weather_impact_analytics \<Rightarrow> weather_impact_analytics" where
  "weatherUpdate a = (\<lambda>c. c\<lparr>wa_leads_generated := wa_leads_generated a,
                             wa_projects_created := wa_projects_created a,
                             wa_revenue_impact := wa_revenue_impact a,
                             wa_affected_zip_codes := wa_affected_zip_codes a,
                             wa_impact_start_date := wa_impact_start_date a,
                             wa_impact_end_date := wa_impact_end_date a\<rparr>)"

definition predictionUpdate :: "prediction \<Rightarrow> prediction \<Rightarrow> prediction" where
  "predictionUpdate p = (\<lambda>c. c\<lparr>pr_prediction_value := pr_prediction_value p,
                                pr_confidence_score := pr_confidence_score p,
                                pr_features_used := pr_features_used p,
                                pr_prediction_date := pr_prediction_date p,
                                pr_expiration_date := pr_expiration_date p\<rparr>)"

definition upsert ::
  "('a \<Rightarrow> bool) \<Rightarrow> ('a \<Rightarrow> 'a) \<Rightarrow> 'a \<Rightarrow> timestamp \<Rightarrow> 'a row list \<Rightarrow> 'a row list" where
  "upsert P f a t0 t =
     (case db_get P t of
        Some _ \<Rightarrow> db_update (\<lambda>r. P (cols r)) f t
      | None \<Rightarrow> db_insert t0 a t)"



definition addKey :: "'k \<Rightarrow> 'k list \<Rightarrow> 'k list" where
  "addKey k ks = (if k \<in> set ks then ks else ks @ [k])"

subsection \<open>Sequences of calls and the keys of the derived stores\<close>

text \<open>
  The keys present in each derived table, in row order: the entity id for the four
  analytics tables, the tuple (model name, entity type, entity id, prediction type) for
  \<open>predictive_model_results\<close>.
\<close>

definition leadKeys :: "world \<Rightarrow> int list" where
  "leadKeys w = map (\<lambda>r. la_lead_id (cols r)) (lead_analytics w)"

definition projectKeys :: "world \<Rightarrow> int list" where
  "projectKeys w = map (\<lambda>r. pa_project_id (cols r)) (project_analytics w)"

definition customerKeys :: "world \<Rightarrow> int list" where
  "customerKeys w = map (\<lambda>r. ca_customer_id (cols r)) (customer_analytics w)"

definition weatherKeys :: "world \<Rightarrow> int list" where
  "weatherKeys w = map (\<lambda>r. wa_weather_event_id (cols r)) (weather_impact_analytics w)"

definition predictionKey :: "prediction \<Rightarrow> string \<times> string \<times> int \<times> string" where
  "predictionKey c = (pr_model_name c, pr_entity_type c, pr_entity_id c, pr_prediction_type c)"

definition predictionKeys :: "world \<Rightarrow> (string \<times> string \<times> int \<times> string) list" where
  "predictionKeys w = map (\<lambda>r. predictionKey (cols r)) (predictive_model_results w)"

definition onePerKey :: "world \<Rightarrow> bool" where
  "onePerKey w \<longleftrightarrow>
     distinct (leadKeys w) \<and> distinct (projectKeys w) \<and> distinct (customerKeys w) \<and>
     distinct (weatherKeys w) \<and> distinct (predictionKeys w)"

datatype call =
    ProcessLead lead
  | ProcessProject project
  | ProcessCustomer customer
  | ProcessWeatherEvent weather_event
  | GeneratePrediction string string int string

text \<open>One call: whether its promise resolved, and the world it leaves.\<close>

fun exec :: "call \<Rightarrow> world \<Rightarrow> bool \<times> world" where
  "exec (ProcessLead ld) w = (let (r, w') = processLeadData ld w in (\<not> isl r, w'))"
| "exec (ProcessProject p) w = (let (r, w') = processProjectData p w in (\<not> isl r, w'))"
| "exec (ProcessCustomer c) w = (let (r, w') = processCustomerData c w in (\<not> isl r, w'))"
| "exec (ProcessWeatherEvent e) w = (let (r, w') = processWeatherEventData e w in (\<not> isl r, w'))"
| "exec (GeneratePrediction m t i p) w = (let (r, w') = generatePrediction m t i p w in (\<not> isl r, w'))"

definition run :: "call list \<Rightarrow> world \<Rightarrow> world" where
  "run cs w = foldl (\<lambda>w' c. snd (exec c w')) w cs"

text \<open>The number of rows the store holds under the key a call writes.\<close>

fun rowsFor :: "call \<Rightarrow> world \<Rightarrow> nat" where
  "rowsFor (ProcessLead ld) w = count_list (leadKeys w) (l_id ld)"
| "rowsFor (ProcessProject p) w = count_list (projectKeys w) (p_id p)"
| "rowsFor (ProcessCustomer c) w = count_list (customerKeys w) (c_id c)"
| "rowsFor (ProcessWeatherEvent e) w = count_list (weatherKeys w) (w_id e)"
| "rowsFor (GeneratePrediction m t i p) w = count_list (predictionKeys w) (m, t, i, p)"

definition tableSizes :: "world \<Rightarrow> nat list" where
  "tableSizes w =
     [length (lead_analytics w), length (project_analytics w), length (customer_analytics w),
      length (weather_impact_analytics w), length (predictive_model_results w)]"

subsection \<open>Example data\<close>

definition emptyWorld :: world where
  "emptyWorld =
     \<lparr>leads = [], projects = [], customers = [], weather_events = [], business_metrics = [],
      other_tables = (\<lambda>_. None),
      lead_analytics = [], project_analytics = [], customer_analytics = [],
      weather_impact_analytics = [], predictive_model_results = [], time_based_aggregates = [],
      faults = [], randoms = [], now = 1700000000000\<rparr>"

definition project1 :: project where
  "project1 = \<lparr>p_id = 1, p_customer_id = 1, p_project_type = Some ''Roof Replacement'',
               p_start_date = Some 1690000000000, p_end_date = Some 1691000000000,
               p_contract_amount = 12500, p_created_at = Some 1689000000000\<rparr>"

text \<open>A project whose end date lies five days before its start date.\<close>

definition project2 :: project where
  "project2 = \<lparr>p_id = 2, p_customer_id = 1, p_project_type = Some ''Leak repair'',
               p_start_date = Some 864000000, p_end_date = Some 432000000,
               p_contract_amount = 900, p_created_at = Some 432000000\<rparr>"

definition customer1 :: customer where
  "customer1 = \<lparr>c_id = 1\<rparr>"

text \<open>A stand-in for \<open>strftime\<close>: periods of thirty days, whatever the format.\<close>

definition thirtyDays :: "string \<Rightarrow> timestamp option \<Rightarrow> int" where
  "thirtyDays fmt t = (case t of None \<Rightarrow> - 1 | Some x \<Rightarrow> x div 2592000000)"

text \<open>A store in which lead 1 has already been converted to a customer.\<close>

definition convertedWorld :: world where
  "convertedWorld =
     emptyWorld\<lparr>lead_analytics :=
       [\<lparr>row_id = 7, created_at = 1680000000000,
         cols = \<lparr>la_lead_id = 1, la_acquisition_source = ''Website'',
                  la_acquisition_cost = 25, la_lead_score = 65,
                  la_conversion_probability = 0.52, la_days_to_conversion = Some 12,
                  la_converted_to_customer = True,
                  la_conversion_date = Some 1695000000000\<rparr>\<rparr>]\<rparr>"

text \<open>A ledger with revenue in two periods.\<close>

definition metricsWorld :: world where
  "metricsWorld =
     emptyWorld\<lparr>business_metrics :=
       [\<lparr>bm_metric_name = ''revenue'', bm_metric_value = 125000,
         bm_start_date = Some 0, bm_end_date = Some 1000\<rparr>,
        \<lparr>bm_metric_name = ''revenue'', bm_metric_value = 1000,
         bm_start_date = Some 500, bm_end_date = Some 2000\<rparr>,
        \<lparr>bm_metric_name = ''revenue'', bm_metric_value = 142000,
         bm_start_date = Some 2592000000, bm_end_date = Some 2592001000\<rparr>,
        \<lparr>bm_metric_name = ''profit'', bm_metric_value = 31000,
         bm_start_date = Some 0, bm_end_date = Some 1000\<rparr>]\<rparr>"


text \<open>A store with three leads, two customers and one project.\<close>

definition smallWorld :: world where
  "smallWorld =
     emptyWorld\<lparr>leads :=
       [\<lparr>l_id = 1, l_source = Some ''Referral'',
         l_service_interest = Some ''Full Roof Replacement'', l_created_at = Some 1690000000000\<rparr>,
        \<lparr>l_id = 2, l_source = Some ''Google'', l_service_interest = Some ''Roof repair'',
         l_created_at = Some 1690000000000\<rparr>,
        \<lparr>l_id = 3, l_source = None, l_service_interest = None,
         l_created_at = Some 1695000000000\<rparr>],
       customers := [\<lparr>c_id = 1\<rparr>, \<lparr>c_id = 2\<rparr>],
       projects :=
       [\<lparr>p_id = 1, p_customer_id = 1, p_project_type = Some ''Roof Replacement'',
         p_start_date = Some 1690000000000, p_end_date = Some 1691000000000,
         p_contract_amount = 12500, p_created_at = Some 1689000000000\<rparr>]\<rparr>"

definition lead1 :: lead where
  "lead1 = \<lparr>l_id = 1, l_source = Some ''Referral'',
            l_service_interest = Some ''Full Roof Replacement'', l_created_at = Some 1690000000000\<rparr>"

section \<open>Properties\<close>

subsection \<open>The store primitives\<close>

lemma db_call_faults: "db_call w = (e, w1) \<Longrightarrow> w1 = w\<lparr>faults := tl (faults w)\<rparr>"
  by (auto simp: db_call_def split: list.splits)

lemma Math_random_randoms: "Math_random w = (r, w1) \<Longrightarrow> w1 = w\<lparr>randoms := tl (randoms w)\<rparr>"
  by (auto simp: Math_random_def split: list.splits)

lemma keys_db_update:
  "(\<And>c. key (f c) = key c) \<Longrightarrow>
   map (\<lambda>r. key (cols r)) (db_update P f t) = map (\<lambda>r. key (cols r)) t"
  by (simp add: db_update_def)

lemma Math_random_faults:
  "Math_random (w\<lparr>faults := fs\<rparr>) = (fst (Math_random w), (snd (Math_random w))\<lparr>faults := fs\<rparr>)"
  by (simp add: Math_random_def split: list.splits)

lemma Math_random_snd: "snd (Math_random w) = w\<lparr>randoms := tl (randoms w)\<rparr>"
  by (simp add: Math_random_def split: list.splits)

lemma db_get_None: "db_get P t = None \<longleftrightarrow> (\<forall>r\<in>set t. \<not> P (cols r))"
  by (auto simp: db_get_def find_None_iff)

lemma db_get_Some: "db_get P t = Some r \<Longrightarrow> r \<in> set t \<and> P (cols r)"
  by (auto simp: db_get_def find_Some_iff)

lemma upsert_rows:
  "row \<in> set (upsert P f a t0 t) \<Longrightarrow> P (cols row) \<Longrightarrow> (\<exists>c. cols row = f c) \<or> cols row = a"
  by (auto simp: upsert_def db_update_def db_insert_def db_get_None split: option.splits if_splits)

lemma upsert_has_row:
  "P a \<Longrightarrow> (\<And>c. P c \<Longrightarrow> P (f c)) \<Longrightarrow> \<exists>row\<in>set (upsert P f a t0 t). P (cols row)"
proof (cases "db_get P t")
  case None
  assume "P a"
  then show ?thesis using None by (simp add: upsert_def db_insert_def)
next
  case (Some r0)
  assume f: "\<And>c. P c \<Longrightarrow> P (f c)"
  from Some have "r0 \<in> set t" "P (cols r0)" using db_get_Some[OF Some] by auto
  then have "r0\<lparr>cols := f (cols r0)\<rparr> \<in> set (db_update (\<lambda>r. P (cols r)) f t)"
    by (force simp: db_update_def)
  moreover have "P (cols (r0\<lparr>cols := f (cols r0)\<rparr>))" using f \<open>P (cols r0)\<close> by simp
  ultimately have "\<exists>row\<in>set (db_update (\<lambda>r. P (cols r)) f t). P (cols row)"
    by (rule bexI[rotated])
  then show ?thesis using Some by (simp add: upsert_def)
qed

subsection \<open>The effect of one reconciler call\<close>

text \<open>
  Each reconciler leaves the other derived tables alone; when it resolves, its own table
  is the check-then-update-or-insert of the computed object, and when it rejects, its own
  table is unchanged.
\<close>

lemma processLeadData_effect:
  assumes "processLeadData ld w = (res, w')"
  shows "project_analytics w' = project_analytics w \<and>
         customer_analytics w' = customer_analytics w \<and>
         weather_impact_analytics w' = weather_impact_analytics w \<and>
         predictive_model_results w' = predictive_model_results w \<and>
         time_based_aggregates w' = time_based_aggregates w \<and>
         (case res of
            Inl e \<Rightarrow> lead_analytics w' = lead_analytics w
          | Inr x \<Rightarrow>
              fst x = leadAnalytics ld \<and>
              lead_analytics w' =
                upsert (\<lambda>c. la_lead_id c = l_id ld) (leadUpdate (leadAnalytics ld))
                  (leadAnalytics ld) (now w) (lead_analytics w))"
  using assms
  by (auto simp: processLeadData_def Let_def upsert_def leadUpdate_def
      split: prod.splits if_splits option.splits dest!: db_call_faults)

lemma processProjectData_effect:
  assumes "processProjectData p w = (res, w')"
  shows "lead_analytics w' = lead_analytics w \<and>
         customer_analytics w' = customer_analytics w \<and>
         weather_impact_analytics w' = weather_impact_analytics w \<and>
         predictive_model_results w' = predictive_model_results w \<and>
         time_based_aggregates w' = time_based_aggregates w \<and>
         (case res of
            Inl e \<Rightarrow> project_analytics w' = project_analytics w
          | Inr x \<Rightarrow>
              fst x = projectAnalytics p (fst (Math_random w))
                        (fst (Math_random (snd (Math_random w)))) \<and>
              project_analytics w' =
                upsert (\<lambda>c. pa_project_id c = p_id p) (projectUpdate (fst x)) (fst x) (now w)
                  (project_analytics w))"
  using assms
  by (auto simp: processProjectData_def Let_def upsert_def projectUpdate_def Math_random_faults
      Math_random_snd split: prod.splits if_splits option.splits dest!: db_call_faults)

lemma processCustomerData_effect:
  assumes "processCustomerData c w = (res, w')"
  shows "lead_analytics w' = lead_analytics w \<and>
         project_analytics w' = project_analytics w \<and>
         weather_impact_analytics w' = weather_impact_analytics w \<and>
         predictive_model_results w' = predictive_model_results w \<and>
         time_based_aggregates w' = time_based_aggregates w \<and>
         (case res of
            Inl e \<Rightarrow> customer_analytics w' = customer_analytics w
          | Inr x \<Rightarrow>
              fst x = customerAnalytics c (filter (\<lambda>p. p_customer_id p = c_id c) (projects w))
                        (fst (Math_random w)) (fst (Math_random (snd (Math_random w)))) (now w) \<and>
              customer_analytics w' =
                upsert (\<lambda>x. ca_customer_id x = c_id c) (customerUpdate (fst x)) (fst x) (now w)
                  (customer_analytics w))"
  using assms
  by (auto simp: processCustomerData_def Let_def upsert_def customerUpdate_def Math_random_faults
      Math_random_snd split: prod.splits if_splits option.splits dest!: db_call_faults)

lemma processWeatherEventData_effect:
  assumes "processWeatherEventData e w = (res, w')"
  shows "lead_analytics w' = lead_analytics w \<and>
         project_analytics w' = project_analytics w \<and>
         customer_analytics w' = customer_analytics w \<and>
         predictive_model_results w' = predictive_model_results w \<and>
         time_based_aggregates w' = time_based_aggregates w \<and>
         (case res of
            Inl e \<Rightarrow> weather_impact_analytics w' = weather_impact_analytics w
          | Inr x \<Rightarrow>
              fst x = weatherImpactAnalytics e \<and>
              weather_impact_analytics w' =
                upsert (\<lambda>c. wa_weather_event_id c = w_id e)
                  (weatherUpdate (weatherImpactAnalytics e)) (weatherImpactAnalytics e) (now w)
                  (weather_impact_analytics w))"
  using assms
  by (auto simp: processWeatherEventData_def Let_def upsert_def weatherUpdate_def
      split: prod.splits if_splits option.splits dest!: db_call_faults)

subsection \<open>Lead score and conversion probability\<close>








subsection \<open>Project cost, profit margin and cost variance\<close>





subsection \<open>Actual duration of a project\<close>

text \<open>
  Claim C9 states that the actual duration carries the sign of \<open>end_date - start_date\<close>.
  The source takes \<open>Math.abs\<close> of the difference first: for a project that ends five days
  before it starts the stored duration is 5, where the claim's formula gives -5.
\<close>

theorem C9_actual_duration_counterexample:
  "p_start_date project2 = Some 864000000 \<and> p_end_date project2 = Some 432000000 \<and>
   pa_actual_duration (projectAnalytics project2 0 0) = 5 \<and>
   \<lceil>real_of_int (432000000 - 864000000) / (1000 * 60 * 60 * 24)\<rceil> = (- 5 :: int)"
  by (simp add: project2_def projectAnalytics_def actualDuration_def Let_def)

text \<open>
  Claim C9, amended. When both dates are present the actual duration is the ceiling of the
  absolute difference of the two dates in days: never negative, and equal to the ceiling of
  \<open>end_date - start_date\<close> in days when the end date does not precede the start date.
  When either date is absent it is the estimated duration. Every row that
  \<open>processProjectData\<close> leaves for the project holds that value.
\<close>

theorem C9_actual_duration_amended:
  "(case (p_start_date p, p_end_date p) of
      (Some s, Some e) \<Rightarrow>
         pa_actual_duration (projectAnalytics p r1 r2) = \<lceil>\<bar>real_of_int (e - s)\<bar> / 86400000\<rceil> \<and>
         0 \<le> pa_actual_duration (projectAnalytics p r1 r2) \<and>
         (s \<le> e \<longrightarrow> pa_actual_duration (projectAnalytics p r1 r2) = \<lceil>real_of_int (e - s) / 86400000\<rceil>)
    | _ \<Rightarrow> pa_actual_duration (projectAnalytics p r1 r2) = pa_estimated_duration (projectAnalytics p r1 r2)) \<and>
   (\<forall>w res w'. processProjectData p w = (Inr res, w') \<longrightarrow>
      (\<forall>row\<in>set (project_analytics w'). pa_project_id (cols row) = p_id p \<longrightarrow>
         pa_actual_duration (cols row) = pa_actual_duration (projectAnalytics p r1 r2)))"
proof -
  have stored: "\<forall>row\<in>set (project_analytics w'). pa_project_id (cols row) = p_id p \<longrightarrow>
         pa_actual_duration (cols row) = pa_actual_duration (projectAnalytics p r1 r2)"
    if ok: "processProjectData p w = (Inr res, w')" for w res w'
  proof -
    from processProjectData_effect[OF ok] have
      res: "pa_actual_duration (fst res) = actualDuration p" and
      t: "project_analytics w' = upsert (\<lambda>c. pa_project_id c = p_id p)
            (projectUpdate (fst res)) (fst res) (now w) (project_analytics w)"
      by (auto simp: projectAnalytics_def Let_def)
    show ?thesis
      using res upsert_rows[of _ "\<lambda>c. pa_project_id c = p_id p"
          "projectUpdate (fst res)" "fst res" "now w" "project_analytics w"]
      unfolding t by (fastforce simp: projectUpdate_def projectAnalytics_def Let_def)
  qed
  have pure: "(case (p_start_date p, p_end_date p) of
      (Some s, Some e) \<Rightarrow>
         pa_actual_duration (projectAnalytics p r1 r2) = \<lceil>\<bar>real_of_int (e - s)\<bar> / 86400000\<rceil> \<and>
         0 \<le> pa_actual_duration (projectAnalytics p r1 r2) \<and>
         (s \<le> e \<longrightarrow> pa_actual_duration (projectAnalytics p r1 r2) = \<lceil>real_of_int (e - s) / 86400000\<rceil>)
    | _ \<Rightarrow> pa_actual_duration (projectAnalytics p r1 r2) = pa_estimated_duration (projectAnalytics p r1 r2))"
    by (auto simp: projectAnalytics_def actualDuration_def Let_def split: option.splits)
  show ?thesis using pure stored by blast
qed

theorem C9_actual_duration_amended_witness:
  "processProjectData project1 emptyWorld =
     (Inr (projectAnalytics project1 0 0, Some 1),
      emptyWorld\<lparr>project_analytics :=
        [\<lparr>row_id = 1, created_at = 1700000000000, cols = projectAnalytics project1 0 0\<rparr>]\<rparr>) \<and>
   pa_actual_duration (projectAnalytics project1 0 0) = 12 \<and>
   pa_actual_duration (projectAnalytics project2 0 0) = 5"
proof -
  have h: "processProjectData project1 emptyWorld =
     (Inr (projectAnalytics project1 0 0, Some 1),
      emptyWorld\<lparr>project_analytics :=
        [\<lparr>row_id = 1, created_at = 1700000000000, cols = projectAnalytics project1 0 0\<rparr>]\<rparr>)"
    by (simp add: processProjectData_def emptyWorld_def db_call_def db_get_def db_insert_def
        lastID_def Let_def Math_random_def)
  have d: "p_start_date project1 = Some 1690000000000" "p_end_date project1 = Some 1691000000000"
    "p_start_date project2 = Some 864000000" "p_end_date project2 = Some 432000000"
    by (simp_all add: project1_def project2_def)
  from C9_actual_duration_amended[of project1 0 0] C9_actual_duration_amended[of project2 0 0]
  have "pa_actual_duration (projectAnalytics project1 0 0) = 12 \<and>
        pa_actual_duration (projectAnalytics project2 0 0) = 5"
    by (simp add: d)
  with h show ?thesis by simp
qed

subsection \<open>Retention score and churn probability\<close>

lemma retentionScore_bounds: "40 \<le> retentionScore ps t \<and> retentionScore ps t \<le> 100"
  unfolding retentionScore_def Let_def
  by (cases "foldl laterProject None ps";
      cases "orElse (p_end_date (the (foldl laterProject None ps)))
               (p_start_date (the (foldl laterProject None ps)))") simp_all

lemma churnProbability_bounds:
  "40 \<le> rs \<Longrightarrow> rs \<le> 100 \<Longrightarrow> 0 \<le> churnProbability rs \<and> churnProbability rs \<le> 0.9"
  by (simp add: churnProbability_def)

text \<open>
  Claim C3. Whenever \<open>processCustomerData\<close> resolves, the store holds a row for the
  customer, and every row of the customer holds a retention score within 0 and 100 and a
  churn probability equal to \<open>max(0, 1 - retention_score / 100 \<times> 0.9)\<close>, which lies within
  0 and 0.9.
\<close>

theorem C3_churn_probability:
  assumes "processCustomerData c w = (Inr res, w')"
  shows "(\<exists>row\<in>set (customer_analytics w'). ca_customer_id (cols row) = c_id c) \<and>
         (\<forall>row\<in>set (customer_analytics w'). ca_customer_id (cols row) = c_id c \<longrightarrow>
            ca_churn_probability (cols row) =
              max 0 (1 - real_of_int (ca_retention_score (cols row)) / 100 * 0.9) \<and>
            0 \<le> ca_retention_score (cols row) \<and> ca_retention_score (cols row) \<le> 100 \<and>
            0 \<le> ca_churn_probability (cols row) \<and> ca_churn_probability (cols row) \<le> 0.9)"
proof -
  define ps where "ps = filter (\<lambda>p. p_customer_id p = c_id c) (projects w)"
  define a where "a = fst res"
  from processCustomerData_effect[OF assms] have
    a: "a = customerAnalytics c ps (fst (Math_random w)) (fst (Math_random (snd (Math_random w)))) (now w)"
    and t: "customer_analytics w' = upsert (\<lambda>x. ca_customer_id x = c_id c) (customerUpdate a) a (now w)
                  (customer_analytics w)"
    by (auto simp: ps_def a_def)
  have rs: "ca_retention_score a = retentionScore ps (now w)"
    and ch: "ca_churn_probability a = churnProbability (retentionScore ps (now w))"
    and k: "ca_customer_id a = c_id c"
    by (simp_all add: a customerAnalytics_def Let_def)
  note b = retentionScore_bounds[of ps "now w"]
  note cb = churnProbability_bounds[of "retentionScore ps (now w)"]
  have ex: "\<exists>row\<in>set (customer_analytics w'). ca_customer_id (cols row) = c_id c"
    unfolding t by (rule upsert_has_row) (simp_all add: k customerUpdate_def)
  have all: "ca_churn_probability (cols row) =
              max 0 (1 - real_of_int (ca_retention_score (cols row)) / 100 * 0.9) \<and>
            0 \<le> ca_retention_score (cols row) \<and> ca_retention_score (cols row) \<le> 100 \<and>
            0 \<le> ca_churn_probability (cols row) \<and> ca_churn_probability (cols row) \<le> 0.9"
    if "row \<in> set (customer_analytics w')" "ca_customer_id (cols row) = c_id c" for row
  proof -
    from upsert_rows[of row "\<lambda>x. ca_customer_id x = c_id c" "customerUpdate a" a "now w"
        "customer_analytics w"] that
    have "ca_retention_score (cols row) = ca_retention_score a \<and>
          ca_churn_probability (cols row) = ca_churn_probability a"
      unfolding t by (auto simp: customerUpdate_def)
    then show ?thesis using rs ch b cb by (simp add: churnProbability_def)
  qed
  show ?thesis using ex all by blast
qed

theorem C3_churn_probability_witness:
  "processCustomerData customer1 emptyWorld =
     (Inr (customerAnalytics customer1 [] 0 0 1700000000000, Some 1),
      emptyWorld\<lparr>customer_analytics :=
        [\<lparr>row_id = 1, created_at = 1700000000000,
          cols = customerAnalytics customer1 [] 0 0 1700000000000\<rparr>]\<rparr>) \<and>
   ca_retention_score (customerAnalytics customer1 [] 0 0 1700000000000) = 50 \<and>
   ca_churn_probability (customerAnalytics customer1 [] 0 0 1700000000000) = 0.55"
proof -
  have h: "processCustomerData customer1 emptyWorld =
     (Inr (customerAnalytics customer1 [] 0 0 1700000000000, Some 1),
      emptyWorld\<lparr>customer_analytics :=
        [\<lparr>row_id = 1, created_at = 1700000000000,
          cols = customerAnalytics customer1 [] 0 0 1700000000000\<rparr>]\<rparr>)"
    by (simp add: processCustomerData_def emptyWorld_def db_call_def db_get_def db_insert_def
        lastID_def customer1_def Let_def Math_random_def)
  have v: "ca_retention_score (customerAnalytics customer1 [] 0 0 1700000000000) = 50"
    by (simp add: customerAnalytics_def retentionScore_def Let_def)
  from C3_churn_probability[OF h] h v show ?thesis
    by (simp add: emptyWorld_def customerAnalytics_def customer1_def Let_def)
qed

subsection \<open>Unsupported aggregation levels\<close>

text \<open>
  Claim C8. For an aggregation level other than daily, weekly, monthly, quarterly and
  yearly, \<open>generateTimeBasedAggregates\<close> rejects with a validation error, whatever the
  metric name, and returns the world as it was: no table is written and no database call
  is made.
\<close>

theorem C8_invalid_level_rejected:
  assumes "aggregationLevel \<notin> {''daily'', ''weekly'', ''monthly'', ''quarterly'', ''yearly''}"
  shows "generateTimeBasedAggregates strftime metricName aggregationLevel w =
           (Inl (ValidationError (''Invalid aggregation level: '' @ aggregationLevel)), w)"
  using assms by (simp add: generateTimeBasedAggregates_def dateFormat_def)

theorem C8_invalid_level_rejected_witness:
  "''fortnightly'' \<notin> {''daily'', ''weekly'', ''monthly'', ''quarterly'', ''yearly''} \<and>
   generateTimeBasedAggregates thirtyDays ''revenue'' ''fortnightly'' emptyWorld =
     (Inl (ValidationError ''Invalid aggregation level: fortnightly''), emptyWorld)"
proof -
  have h: "''fortnightly'' \<notin> {''daily'', ''weekly'', ''monthly'', ''quarterly'', ''yearly''}"
    by simp
  from C8_invalid_level_rejected[OF h, of thirtyDays "''revenue''" emptyWorld] h
  show ?thesis by simp
qed

subsection \<open>Reconciling a lead that already has an analytics row\<close>

lemma db_update_idem:
  assumes "\<And>c. f (f c) = f c" and "\<And>c. P (f c) = P c"
  shows "db_update (\<lambda>r. P (cols r)) f (db_update (\<lambda>r. P (cols r)) f t) =
         db_update (\<lambda>r. P (cols r)) f t"
  by (induction t) (simp_all add: db_update_def assms)

lemma db_get_db_update:
  assumes "\<And>c. P (f c) = P c"
  shows "(db_get P (db_update (\<lambda>r. P (cols r)) f t) = None) = (db_get P t = None)"
  by (induction t) (simp_all add: db_get_def db_update_def assms)

lemma db_update_none: "\<forall>r\<in>set t. \<not> Q r \<Longrightarrow> db_update Q f t = t"
  by (induction t) (simp_all add: db_update_def)

lemma db_update_append: "db_update Q f (t @ u) = db_update Q f t @ db_update Q f u"
  by (simp add: db_update_def)

lemma upsert_idem:
  assumes ff: "\<And>c. f (f c) = f c" and pf: "\<And>c. P (f c) = P c" and fa: "f a = a" and pa: "P a"
  shows "upsert P f a t1 (upsert P f a t0 t) = upsert P f a t0 t"
proof (cases "db_get P t")
  case None
  then have no: "\<forall>r\<in>set t. \<not> P (cols r)" by (simp add: db_get_None)
  define new where "new = \<lparr>row_id = lastID t, created_at = t0, cols = a\<rparr>"
  have u: "upsert P f a t0 t = t @ [new]"
    using None by (simp add: upsert_def db_insert_def new_def)
  have "db_get P (t @ [new]) \<noteq> None"
    using pa by (simp add: db_get_None new_def)
  then have "upsert P f a t1 (t @ [new]) = db_update (\<lambda>r. P (cols r)) f (t @ [new])"
    by (auto simp: upsert_def)
  also have "\<dots> = t @ db_update (\<lambda>r. P (cols r)) f [new]"
    using db_update_none[of t "\<lambda>r. P (cols r)" f] no by (simp only: db_update_append)
  also have "db_update (\<lambda>r. P (cols r)) f [new] = [new]"
    by (simp add: db_update_def new_def fa)
  finally show ?thesis by (simp only: u)
next
  case (Some r0)
  then have u: "upsert P f a t0 t = db_update (\<lambda>r. P (cols r)) f t"
    by (simp add: upsert_def)
  have "db_get P (db_update (\<lambda>r. P (cols r)) f t) \<noteq> None"
    using Some db_get_db_update[of P f t, OF pf] by simp
  then have "upsert P f a t1 (db_update (\<lambda>r. P (cols r)) f t) =
             db_update (\<lambda>r. P (cols r)) f (db_update (\<lambda>r. P (cols r)) f t)"
    by (auto simp: upsert_def)
  also have "\<dots> = db_update (\<lambda>r. P (cols r)) f t"
    using ff pf by (rule db_update_idem)
  finally show ?thesis by (simp only: u)
qed

text \<open>
  Claim C6. When \<open>processLeadData\<close> resolves for a lead whose analytics row exists, the
  table keeps its length and, row by row, the id, the lead id, \<open>days_to_conversion\<close>,
  \<open>converted_to_customer\<close> and \<open>conversion_date\<close>; a row of the lead has exactly its four
  recomputed columns overwritten, any other row is untouched. Reconciling the same lead
  again returns the same object and leaves the table as the first reconciliation left it.
\<close>

theorem C6_lead_update_frame:
  assumes ok: "processLeadData ld w = (Inr res, w')"
  shows "(\<forall>r0. db_get (\<lambda>c. la_lead_id c = l_id ld) (lead_analytics w) = Some r0 \<longrightarrow>
            length (lead_analytics w') = length (lead_analytics w) \<and>
            (\<forall>i < length (lead_analytics w).
               row_id (lead_analytics w' ! i) = row_id (lead_analytics w ! i) \<and>
               created_at (lead_analytics w' ! i) = created_at (lead_analytics w ! i) \<and>
               (if la_lead_id (cols (lead_analytics w ! i)) = l_id ld
                then cols (lead_analytics w' ! i) =
                       (cols (lead_analytics w ! i))
                         \<lparr>la_acquisition_source := acquisitionSource ld,
                          la_acquisition_cost := leadAcquisitionCost (acquisitionSource ld),
                          la_lead_score := leadScore ld,
                          la_conversion_probability := leadScore ld / 100 * 0.8\<rparr>
                else cols (lead_analytics w' ! i) = cols (lead_analytics w ! i)) \<and>
               la_lead_id (cols (lead_analytics w' ! i)) =
                 la_lead_id (cols (lead_analytics w ! i)) \<and>
               la_days_to_conversion (cols (lead_analytics w' ! i)) =
                 la_days_to_conversion (cols (lead_analytics w ! i)) \<and>
               la_converted_to_customer (cols (lead_analytics w' ! i)) =
                 la_converted_to_customer (cols (lead_analytics w ! i)) \<and>
               la_conversion_date (cols (lead_analytics w' ! i)) =
                 la_conversion_date (cols (lead_analytics w ! i)))) \<and>
         (\<forall>res2 w''. processLeadData ld w' = (Inr res2, w'') \<longrightarrow>
            fst res2 = fst res \<and> lead_analytics w'' = lead_analytics w')"
proof -
  let ?P = "\<lambda>c. la_lead_id c = l_id ld"
  let ?a = "leadAnalytics ld"
  from processLeadData_effect[OF ok] have
    res: "fst res = ?a" and
    t: "lead_analytics w' = upsert ?P (leadUpdate ?a) ?a (now w) (lead_analytics w)"
    by auto
  have frame: "length (lead_analytics w') = length (lead_analytics w) \<and>
            (\<forall>i < length (lead_analytics w).
               row_id (lead_analytics w' ! i) = row_id (lead_analytics w ! i) \<and>
               created_at (lead_analytics w' ! i) = created_at (lead_analytics w ! i) \<and>
               (if la_lead_id (cols (lead_analytics w ! i)) = l_id ld
                then cols (lead_analytics w' ! i) =
                       (cols (lead_analytics w ! i))
                         \<lparr>la_acquisition_source := acquisitionSource ld,
                          la_acquisition_cost := leadAcquisitionCost (acquisitionSource ld),
                          la_lead_score := leadScore ld,
                          la_conversion_probability := leadScore ld / 100 * 0.8\<rparr>
                else cols (lead_analytics w' ! i) = cols (lead_analytics w ! i)) \<and>
               la_lead_id (cols (lead_analytics w' ! i)) =
                 la_lead_id (cols (lead_analytics w ! i)) \<and>
               la_days_to_conversion (cols (lead_analytics w' ! i)) =
                 la_days_to_conversion (cols (lead_analytics w ! i)) \<and>
               la_converted_to_customer (cols (lead_analytics w' ! i)) =
                 la_converted_to_customer (cols (lead_analytics w ! i)) \<and>
               la_conversion_date (cols (lead_analytics w' ! i)) =
                 la_conversion_date (cols (lead_analytics w ! i)))"
    if "db_get ?P (lead_analytics w) = Some r0" for r0
    using that unfolding t
    by (simp add: upsert_def db_update_def leadUpdate_def leadAnalytics_def)
  have idem: "fst res2 = fst res \<and> lead_analytics w'' = lead_analytics w'"
    if ok2: "processLeadData ld w' = (Inr res2, w'')" for res2 w''
  proof -
    from processLeadData_effect[OF ok2] have
      res2: "fst res2 = ?a" and
      t2: "lead_analytics w'' = upsert ?P (leadUpdate ?a) ?a (now w') (lead_analytics w')"
      by auto
    have "upsert ?P (leadUpdate ?a) ?a (now w') (upsert ?P (leadUpdate ?a) ?a (now w) (lead_analytics w))
          = upsert ?P (leadUpdate ?a) ?a (now w) (lead_analytics w)"
      by (rule upsert_idem) (simp_all add: leadUpdate_def leadAnalytics_def)
    then show ?thesis using res res2 t t2 by simp
  qed
  show ?thesis using frame idem by blast
qed

theorem C6_lead_update_frame_witness:
  "processLeadData lead1 convertedWorld =
     (Inr (leadAnalytics lead1, None),
      convertedWorld\<lparr>lead_analytics :=
        [\<lparr>row_id = 7, created_at = 1680000000000,
          cols = \<lparr>la_lead_id = 1, la_acquisition_source = ''Referral'',
                   la_acquisition_cost = 100, la_lead_score = 85,
                   la_conversion_probability = 0.68, la_days_to_conversion = Some 12,
                   la_converted_to_customer = True,
                   la_conversion_date = Some 1695000000000\<rparr>\<rparr>]\<rparr>) \<and>
   db_get (\<lambda>c. la_lead_id c = l_id lead1) (lead_analytics convertedWorld) \<noteq> None"
proof -
  have g: "db_get (\<lambda>c. la_lead_id c = l_id lead1) (lead_analytics convertedWorld) =
             Some (hd (lead_analytics convertedWorld))"
    by (simp add: db_get_def convertedWorld_def emptyWorld_def lead1_def)
  have h: "processLeadData lead1 convertedWorld =
     (Inr (leadAnalytics lead1, None),
      convertedWorld\<lparr>lead_analytics :=
        db_update (\<lambda>r. la_lead_id (cols r) = l_id lead1) (leadUpdate (leadAnalytics lead1))
          (lead_analytics convertedWorld)\<rparr>)"
    by (simp add: processLeadData_def convertedWorld_def emptyWorld_def db_call_def db_get_def
        lead1_def Let_def leadUpdate_def)
  have v: "acquisitionSource lead1 = ''Referral''" "leadScore lead1 = 85"
    "leadAcquisitionCost ''Referral'' = 100"
    by (simp_all add: acquisitionSource_def leadScore_def leadAcquisitionCost_def lead1_def
        sourceBonus_def interestBonus_def truthy_def toLowerCase_def toLowerCase_char_def)
  from C6_lead_update_frame[OF h] g
  have "cols (lead_analytics (convertedWorld\<lparr>lead_analytics :=
            db_update (\<lambda>r. la_lead_id (cols r) = l_id lead1) (leadUpdate (leadAnalytics lead1))
              (lead_analytics convertedWorld)\<rparr>) ! 0) =
        (cols (lead_analytics convertedWorld ! 0))
           \<lparr>la_acquisition_source := acquisitionSource lead1,
            la_acquisition_cost := leadAcquisitionCost (acquisitionSource lead1),
            la_lead_score := leadScore lead1,
            la_conversion_probability := leadScore lead1 / 100 * 0.8\<rparr>"
    by (simp add: convertedWorld_def emptyWorld_def lead1_def)
  then show ?thesis using h g v
    by (simp add: convertedWorld_def emptyWorld_def db_update_def lead1_def)
qed

subsection \<open>Regenerating time-based aggregates\<close>

lemma db_call_tables:
  assumes "db_call w = (e, w1)"
  shows "leads w1 = leads w" "projects w1 = projects w" "business_metrics w1 = business_metrics w"
    "lead_analytics w1 = lead_analytics w" "project_analytics w1 = project_analytics w"
    "time_based_aggregates w1 = time_based_aggregates w" "now w1 = now w"
  using db_call_faults[OF assms] by simp_all

lemma insertAggregates_effect:
  "insertAggregates as w = ((failed, rs), w') \<Longrightarrow>
   time_based_aggregates w' = time_based_aggregates w @ rs \<and>
   (\<not> failed \<longrightarrow> map cols rs = as) \<and>
   leads w' = leads w \<and> projects w' = projects w \<and> business_metrics w' = business_metrics w \<and>
   lead_analytics w' = lead_analytics w \<and> project_analytics w' = project_analytics w"
proof (induction as arbitrary: w failed rs w')
  case Nil
  then show ?case by simp
next
  case (Cons a as)
  obtain e w1 where c: "db_call w = (e, w1)" by (cases "db_call w")
  note t = db_call_tables[OF c]
  show ?case
  proof (cases "e \<or> ag_period_start a = None \<or> ag_period_end a = None")
    case True
    obtain f2 rs2 w2 where r: "insertAggregates as w1 = ((f2, rs2), w2)"
      by (metis prod.exhaust)
    from Cons.prems c True r have eq: "failed = True" "rs = rs2" "w' = w2"
      by (auto simp: Let_def)
    from Cons.IH[OF r] show ?thesis by (simp add: eq t)
  next
    case False
    define r0 where "r0 = \<lparr>row_id = lastID (time_based_aggregates w1), created_at = now w1, cols = a\<rparr>"
    define w1' where "w1' = w1\<lparr>time_based_aggregates := db_insert (now w1) a (time_based_aggregates w1)\<rparr>"
    obtain f2 rs2 w2 where r: "insertAggregates as w1' = ((f2, rs2), w2)"
      by (metis prod.exhaust)
    from Cons.prems c False r have eq: "failed = f2" "rs = r0 # rs2" "w' = w2"
      by (auto simp: Let_def r0_def w1'_def)
    from Cons.IH[OF r] show ?thesis
      by (simp add: eq t w1'_def db_insert_def r0_def)
  qed
qed

lemma metricQuery_cong:
  assumes "leads w' = leads w" "projects w' = projects w" "business_metrics w' = business_metrics w"
    "lead_analytics w' = lead_analytics w" "project_analytics w' = project_analytics w"
  shows "metricQuery strftime m fmt w' = metricQuery strftime m fmt w"
  unfolding metricQuery_def assms by (rule refl)

lemma generateTimeBasedAggregates_Inr:
  assumes "generateTimeBasedAggregates strftime m l w = (Inr a, w')"
  shows "\<exists>fmt bs. dateFormat l = Some fmt \<and> metricQuery strftime m fmt w = Some bs \<and>
           time_based_aggregates w' = time_based_aggregates w @ a \<and>
           map cols a = map (mkAggregate m l) bs \<and>
           metricQuery strftime m fmt w' = Some bs"
proof -
  from assms obtain fmt where f: "dateFormat l = Some fmt"
    by (auto simp: generateTimeBasedAggregates_def split: option.splits)
  from assms f obtain bs where q: "metricQuery strftime m fmt w = Some bs"
    by (auto simp: generateTimeBasedAggregates_def split: option.splits)
  obtain e w1 where c: "db_call w = (e, w1)" by (cases "db_call w")
  note t = db_call_tables[OF c]
  obtain failed rs w2 where i: "insertAggregates (map (mkAggregate m l) bs) w1 = ((failed, rs), w2)"
    by (metis prod.exhaust)
  from assms f q c i have eq: "\<not> e" "\<not> failed" "a = rs" "w' = w2"
    by (auto simp: generateTimeBasedAggregates_def Let_def split: if_splits)
  from insertAggregates_effect[OF i] eq t
  have "time_based_aggregates w' = time_based_aggregates w @ a \<and>
        map cols a = map (mkAggregate m l) bs \<and>
        leads w' = leads w \<and> projects w' = projects w \<and> business_metrics w' = business_metrics w \<and>
        lead_analytics w' = lead_analytics w \<and> project_analytics w' = project_analytics w"
    by simp
  then show ?thesis using f q metricQuery_cong[of w' w strftime m fmt] by simp
qed

text \<open>
  Claim C7. When \<open>generateTimeBasedAggregates\<close> resolves twice in succession for the same
  metric and level, each run appends one row per bucket of the metric's query, with no
  existence check: the second run appends rows with the columns of the first run's rows,
  and the table ends with twice as many new rows as a single run produces.
\<close>

theorem C7_aggregates_not_idempotent:
  assumes r1: "generateTimeBasedAggregates strftime metricName aggregationLevel w = (Inr a1, w1)"
    and r2: "generateTimeBasedAggregates strftime metricName aggregationLevel w1 = (Inr a2, w2)"
  shows "\<exists>fmt bs. dateFormat aggregationLevel = Some fmt \<and>
           metricQuery strftime metricName fmt w = Some bs \<and>
           time_based_aggregates w1 = time_based_aggregates w @ a1 \<and>
           time_based_aggregates w2 = time_based_aggregates w @ a1 @ a2 \<and>
           length a1 = length bs \<and> length a2 = length bs \<and>
           map cols a1 = map (mkAggregate metricName aggregationLevel) bs \<and>
           map cols a2 = map cols a1 \<and>
           length (time_based_aggregates w2) = length (time_based_aggregates w) + 2 * length bs"
proof -
  from generateTimeBasedAggregates_Inr[OF r1] obtain fmt bs where
    f: "dateFormat aggregationLevel = Some fmt" and
    q: "metricQuery strftime metricName fmt w = Some bs" and
    t1: "time_based_aggregates w1 = time_based_aggregates w @ a1" and
    c1: "map cols a1 = map (mkAggregate metricName aggregationLevel) bs" and
    q1: "metricQuery strftime metricName fmt w1 = Some bs"
    by blast
  from generateTimeBasedAggregates_Inr[OF r2] f q1 have
    t2: "time_based_aggregates w2 = time_based_aggregates w1 @ a2" and
    c2: "map cols a2 = map (mkAggregate metricName aggregationLevel) bs"
    by auto
  have l1: "length a1 = length bs" using c1 by (metis length_map)
  have l2: "length a2 = length bs" using c2 by (metis length_map)
  show ?thesis using f q t1 t2 c1 c2 l1 l2 by simp
qed

theorem C7_aggregates_not_idempotent_witness:
  "fst (generateTimeBasedAggregates thirtyDays ''revenue'' ''monthly'' metricsWorld) =
     Inr [\<lparr>row_id = 1, created_at = 1700000000000,
           cols = mkAggregate ''revenue'' ''monthly'' (Some 0, Some 2000, 126000)\<rparr>,
          \<lparr>row_id = 2, created_at = 1700000000000,
           cols = mkAggregate ''revenue'' ''monthly''
                    (Some 2592000000, Some 2592001000, 142000)\<rparr>] \<and>
   length (time_based_aggregates
     (snd (generateTimeBasedAggregates thirtyDays ''revenue'' ''monthly''
        (snd (generateTimeBasedAggregates thirtyDays ''revenue'' ''monthly'' metricsWorld))))) = 4"
proof -
  define a1 where "a1 =
    [\<lparr>row_id = 1, created_at = 1700000000000,
       cols = mkAggregate ''revenue'' ''monthly'' (Some 0, Some 2000, 126000)\<rparr>,
     \<lparr>row_id = 2, created_at = 1700000000000,
       cols = mkAggregate ''revenue'' ''monthly'' (Some 2592000000, Some 2592001000, 142000)\<rparr>]"
  define a2 where "a2 =
    [\<lparr>row_id = 3, created_at = 1700000000000,
       cols = mkAggregate ''revenue'' ''monthly'' (Some 0, Some 2000, 126000)\<rparr>,
     \<lparr>row_id = 4, created_at = 1700000000000,
       cols = mkAggregate ''revenue'' ''monthly'' (Some 2592000000, Some 2592001000, 142000)\<rparr>]"
  have q: "metricQuery thirtyDays ''revenue'' ''%Y-%m'' metricsWorld =
     Some [(Some 0, Some 2000, 126000), (Some 2592000000, Some 2592001000, 142000)]"
    by (simp add: metricQuery_def metricsWorld_def emptyWorld_def thirtyDays_def groupBy_def
        sqlMin_def sqlMax_def List.map_filter_def)
  have q1: "metricQuery thirtyDays ''revenue'' ''%Y-%m''
              (metricsWorld\<lparr>time_based_aggregates := t\<rparr>) =
     Some [(Some 0, Some 2000, 126000), (Some 2592000000, Some 2592001000, 142000)]" for t
    using q metricQuery_cong[of "metricsWorld\<lparr>time_based_aggregates := t\<rparr>" metricsWorld
        thirtyDays "''revenue''" "''%Y-%m''"] by simp
  have f: "faults metricsWorld = []" "now metricsWorld = 1700000000000"
    "time_based_aggregates metricsWorld = []"
    by (simp_all add: metricsWorld_def emptyWorld_def)
  have c0: "db_call metricsWorld = (False, metricsWorld)"
    by (simp add: db_call_def f)
  have c1: "db_call (metricsWorld\<lparr>time_based_aggregates := t\<rparr>) =
              (False, metricsWorld\<lparr>time_based_aggregates := t\<rparr>)" for t
    by (simp add: db_call_def f)
  have h1: "generateTimeBasedAggregates thirtyDays ''revenue'' ''monthly'' metricsWorld =
              (Inr a1, metricsWorld\<lparr>time_based_aggregates := a1\<rparr>)"
    by (simp add: generateTimeBasedAggregates_def dateFormat_def q c0 c1 f
        mkAggregate_def db_insert_def lastID_def a1_def)
  have h2: "generateTimeBasedAggregates thirtyDays ''revenue'' ''monthly''
              (metricsWorld\<lparr>time_based_aggregates := a1\<rparr>) =
              (Inr a2, metricsWorld\<lparr>time_based_aggregates := a1 @ a2\<rparr>)"
    by (simp add: generateTimeBasedAggregates_def dateFormat_def q1 c1 f
        mkAggregate_def db_insert_def lastID_def a1_def a2_def)
  from C7_aggregates_not_idempotent[OF h1 h2]
  have "length (time_based_aggregates (metricsWorld\<lparr>time_based_aggregates := a1 @ a2\<rparr>)) =
        length (time_based_aggregates metricsWorld) + 2 * length a1"
    by auto
  then have "length (time_based_aggregates (metricsWorld\<lparr>time_based_aggregates := a1 @ a2\<rparr>)) = 4"
    by (simp add: a1_def f)
  then have l: "length (time_based_aggregates
     (snd (generateTimeBasedAggregates thirtyDays ''revenue'' ''monthly''
        (snd (generateTimeBasedAggregates thirtyDays ''revenue'' ''monthly'' metricsWorld))))) = 4"
    by (simp only: h1 h2 snd_conv)
  have "fst (generateTimeBasedAggregates thirtyDays ''revenue'' ''monthly'' metricsWorld) = Inr a1"
    by (simp only: h1 fst_conv)
  then show ?thesis using l unfolding a1_def by (rule conjI)
qed

subsection \<open>Store failures in generatePrediction\<close>













subsection \<open>One row per key in the derived stores\<close>

lemma distinct_addKey: "distinct ks \<Longrightarrow> distinct (addKey k ks)"
  by (simp add: addKey_def)

lemma set_addKey: "set (addKey k ks) = insert k (set ks)"
  by (auto simp: addKey_def)

lemma length_addKey: "k \<in> set ks \<Longrightarrow> addKey k ks = ks"
  by (simp add: addKey_def)

lemma count_list_distinct: "distinct xs \<Longrightarrow> count_list xs x = (if x \<in> set xs then 1 else 0)"
  by (induction xs) auto

lemma keys_upsert:
  assumes "\<And>c. key (f c) = key c" and "key a = k"
  shows "map (\<lambda>r. key (cols r)) (upsert (\<lambda>c. key c = k) f a t0 t) =
         addKey k (map (\<lambda>r. key (cols r)) t)"
proof (cases "db_get (\<lambda>c. key c = k) t")
  case None
  then have "k \<notin> set (map (\<lambda>r. key (cols r)) t)" by (auto simp: db_get_None)
  then show ?thesis using None assms(2) by (simp add: upsert_def db_insert_def addKey_def)
next
  case (Some r0)
  then have "k \<in> set (map (\<lambda>r. key (cols r)) t)"
    using db_get_Some[OF Some] by force
  then have "addKey k (map (\<lambda>r. key (cols r)) t) = map (\<lambda>r. key (cols r)) t"
    by (rule length_addKey)
  moreover have "map (\<lambda>r. key (cols r)) (db_update (\<lambda>r. key (cols r) = k) f t) =
                 map (\<lambda>r. key (cols r)) t"
    using assms(1) by (rule keys_db_update)
  ultimately show ?thesis using Some by (simp add: upsert_def)
qed

lemma length_upsert:
  "db_get P t \<noteq> None \<Longrightarrow> length (upsert P f a t0 t) = length t"
  by (auto simp: upsert_def db_update_def)

lemma savePrediction_effect:
  assumes "savePrediction m t i pt v c f d w = (res, w')"
  shows "lead_analytics w' = lead_analytics w \<and>
         project_analytics w' = project_analytics w \<and>
         customer_analytics w' = customer_analytics w \<and>
         weather_impact_analytics w' = weather_impact_analytics w \<and>
         time_based_aggregates w' = time_based_aggregates w \<and>
         (case res of
            Inl e \<Rightarrow> predictive_model_results w' = predictive_model_results w
          | Inr x \<Rightarrow>
              predictionKey (fst x) = (m, t, i, pt) \<and>
              predictive_model_results w' =
                (case db_get (sameKey m t i pt) (predictive_model_results w) of
                   Some r0 \<Rightarrow> db_update (\<lambda>r. row_id r = row_id r0) (predictionUpdate (fst x))
                               (predictive_model_results w)
                 | None \<Rightarrow> db_insert (now w) (fst x) (predictive_model_results w)))"
  using assms
  by (auto simp: savePrediction_def Let_def predictionUpdate_def predictionKey_def
      split: prod.splits if_splits option.splits dest!: db_call_faults)

lemma strategy_effect:
  assumes "strategy m pt i w = (x, w')"
  shows "lead_analytics w' = lead_analytics w \<and>
         project_analytics w' = project_analytics w \<and>
         customer_analytics w' = customer_analytics w \<and>
         weather_impact_analytics w' = weather_impact_analytics w \<and>
         time_based_aggregates w' = time_based_aggregates w \<and>
         predictive_model_results w' = predictive_model_results w \<and> now w' = now w"
  using assms
  by (auto simp: strategy_def Let_def leadConversionStrategy_def customerChurnStrategy_def
      projectCostStrategy_def genericStrategy_def
      split: prod.splits if_splits option.splits
      dest!: db_call_faults Math_random_randoms)

lemma count_addKey: "0 < count_list (addKey k ks) k"
proof -
  have "k \<in> set (addKey k ks)" by (simp add: set_addKey)
  then have "count_list (addKey k ks) k \<noteq> 0" by (simp only: count_list_0_iff) simp
  then show ?thesis by simp
qed

lemma generatePrediction_effect:
  assumes "generatePrediction m t i pt w = (res, w')"
  shows "lead_analytics w' = lead_analytics w \<and>
         project_analytics w' = project_analytics w \<and>
         customer_analytics w' = customer_analytics w \<and>
         weather_impact_analytics w' = weather_impact_analytics w \<and>
         time_based_aggregates w' = time_based_aggregates w \<and>
         (case res of
            Inl e \<Rightarrow> predictive_model_results w' = predictive_model_results w
          | Inr x \<Rightarrow>
              predictionKey (fst x) = (m, t, i, pt) \<and>
              predictive_model_results w' =
                (case db_get (sameKey m t i pt) (predictive_model_results w) of
                   Some r0 \<Rightarrow> db_update (\<lambda>r. row_id r = row_id r0) (predictionUpdate (fst x))
                               (predictive_model_results w)
                 | None \<Rightarrow> db_insert (now w) (fst x) (predictive_model_results w)))"
proof -
  obtain e w1 where c: "db_call w = (e, w1)" by (cases "db_call w")
  from db_call_faults[OF c] have t1:
    "lead_analytics w1 = lead_analytics w" "project_analytics w1 = project_analytics w"
    "customer_analytics w1 = customer_analytics w"
    "weather_impact_analytics w1 = weather_impact_analytics w"
    "time_based_aggregates w1 = time_based_aggregates w"
    "predictive_model_results w1 = predictive_model_results w" "now w1 = now w"
    by simp_all
  show ?thesis
  proof (cases "\<not> e \<and> entityExists w1 (t @ ''s'') i = Some True")
    case False
    then have "isl res \<and> w' = w1"
      using assms c
      by (auto simp: generatePrediction_def Let_def split: option.splits bool.splits if_splits)
    then show ?thesis using t1 by (cases res) simp_all
  next
    case True
    obtain x w2 where s: "strategy m pt i w1 = (x, w2)" by (cases "strategy m pt i w1")
    from True assms c s have
      sp: "savePrediction m t i pt (fst x) (fst (snd x)) (snd (snd x)) 30 w2 = (res, w')"
      by (auto simp: generatePrediction_def Let_def split: prod.splits)
    from strategy_effect[OF s] savePrediction_effect[OF sp] t1
    show ?thesis by (cases res) (auto split: option.splits)
  qed
qed

lemma predictionKeys_step:
  assumes k: "predictionKey p = (m, t, i, pt)"
  shows "map (\<lambda>r. predictionKey (cols r))
           (case db_get (sameKey m t i pt) tb of
              Some r0 \<Rightarrow> db_update (\<lambda>r. row_id r = row_id r0) (predictionUpdate p) tb
            | None \<Rightarrow> db_insert t0 p tb) =
         addKey (m, t, i, pt) (map (\<lambda>r. predictionKey (cols r)) tb)"
proof -
  have sk: "sameKey m t i pt = (\<lambda>c. predictionKey c = (m, t, i, pt))"
    by (auto simp: sameKey_def predictionKey_def fun_eq_iff)
  show ?thesis
  proof (cases "db_get (sameKey m t i pt) tb")
    case None
    then have "(m, t, i, pt) \<notin> set (map (\<lambda>r. predictionKey (cols r)) tb)"
      unfolding sk by (auto simp: db_get_None)
    then show ?thesis using None k by (simp add: db_insert_def addKey_def)
  next
    case (Some r0)
    then have "(m, t, i, pt) \<in> set (map (\<lambda>r. predictionKey (cols r)) tb)"
      using db_get_Some[OF Some] unfolding sk by force
    then have "addKey (m, t, i, pt) (map (\<lambda>r. predictionKey (cols r)) tb) =
               map (\<lambda>r. predictionKey (cols r)) tb"
      by (rule length_addKey)
    moreover have "map (\<lambda>r. predictionKey (cols r))
                     (db_update (\<lambda>r. row_id r = row_id r0) (predictionUpdate p) tb) =
                   map (\<lambda>r. predictionKey (cols r)) tb"
      by (rule keys_db_update) (simp add: predictionUpdate_def predictionKey_def)
    ultimately show ?thesis using Some by simp
  qed
qed

text \<open>What one call does to the five key lists.\<close>

lemma exec_keys:
  assumes "exec c w = (ok, w')"
  shows "(leadKeys w' = leadKeys w \<or> (\<exists>k. leadKeys w' = addKey k (leadKeys w))) \<and>
         (projectKeys w' = projectKeys w \<or> (\<exists>k. projectKeys w' = addKey k (projectKeys w))) \<and>
         (customerKeys w' = customerKeys w \<or> (\<exists>k. customerKeys w' = addKey k (customerKeys w))) \<and>
         (weatherKeys w' = weatherKeys w \<or> (\<exists>k. weatherKeys w' = addKey k (weatherKeys w))) \<and>
         (predictionKeys w' = predictionKeys w \<or>
            (\<exists>k. predictionKeys w' = addKey k (predictionKeys w))) \<and>
         (ok \<longrightarrow> 0 < rowsFor c w')"
proof (cases c)
  case (ProcessLead ld)
  obtain res where r: "processLeadData ld w = (res, w')" and ok: "ok = (\<not> isl res)"
    using assms ProcessLead by (auto split: prod.splits)
  have ku: "map (\<lambda>r. la_lead_id (cols r))
              (upsert (\<lambda>c. la_lead_id c = l_id ld) (leadUpdate (leadAnalytics ld))
                 (leadAnalytics ld) (now w) (lead_analytics w)) =
            addKey (l_id ld) (map (\<lambda>r. la_lead_id (cols r)) (lead_analytics w))"
    by (rule keys_upsert) (simp_all add: leadUpdate_def leadAnalytics_def)
  from processLeadData_effect[OF r] ku show ?thesis
    unfolding ProcessLead ok
    by (cases res)
      (auto simp: leadKeys_def projectKeys_def customerKeys_def weatherKeys_def
        predictionKeys_def count_addKey)
next
  case (ProcessProject p)
  obtain res where r: "processProjectData p w = (res, w')" and ok: "ok = (\<not> isl res)"
    using assms ProcessProject by (auto split: prod.splits)
  have ku: "pa_project_id a = p_id p \<Longrightarrow> map (\<lambda>r. pa_project_id (cols r))
              (upsert (\<lambda>c. pa_project_id c = p_id p) (projectUpdate a) a (now w)
                 (project_analytics w)) =
            addKey (p_id p) (map (\<lambda>r. pa_project_id (cols r)) (project_analytics w))" for a
    by (rule keys_upsert) (simp_all add: projectUpdate_def)
  from processProjectData_effect[OF r] ku show ?thesis
    unfolding ProcessProject ok
    by (cases res)
      (auto simp: leadKeys_def projectKeys_def customerKeys_def weatherKeys_def
        predictionKeys_def count_addKey projectAnalytics_def Let_def)
next
  case (ProcessCustomer cu)
  obtain res where r: "processCustomerData cu w = (res, w')" and ok: "ok = (\<not> isl res)"
    using assms ProcessCustomer by (auto split: prod.splits)
  have ku: "ca_customer_id a = c_id cu \<Longrightarrow> map (\<lambda>r. ca_customer_id (cols r))
              (upsert (\<lambda>x. ca_customer_id x = c_id cu) (customerUpdate a) a (now w)
                 (customer_analytics w)) =
            addKey (c_id cu) (map (\<lambda>r. ca_customer_id (cols r)) (customer_analytics w))" for a
    by (rule keys_upsert) (simp_all add: customerUpdate_def)
  from processCustomerData_effect[OF r] ku show ?thesis
    unfolding ProcessCustomer ok
    by (cases res)
      (auto simp: leadKeys_def projectKeys_def customerKeys_def weatherKeys_def
        predictionKeys_def count_addKey customerAnalytics_def Let_def)
next
  case (ProcessWeatherEvent e)
  obtain res where r: "processWeatherEventData e w = (res, w')" and ok: "ok = (\<not> isl res)"
    using assms ProcessWeatherEvent by (auto split: prod.splits)
  have ku: "map (\<lambda>r. wa_weather_event_id (cols r))
              (upsert (\<lambda>c. wa_weather_event_id c = w_id e)
                 (weatherUpdate (weatherImpactAnalytics e)) (weatherImpactAnalytics e) (now w)
                 (weather_impact_analytics w)) =
            addKey (w_id e) (map (\<lambda>r. wa_weather_event_id (cols r)) (weather_impact_analytics w))"
    by (rule keys_upsert) (simp_all add: weatherUpdate_def weatherImpactAnalytics_def Let_def)
  from processWeatherEventData_effect[OF r] ku show ?thesis
    unfolding ProcessWeatherEvent ok
    by (cases res)
      (auto simp: leadKeys_def projectKeys_def customerKeys_def weatherKeys_def
        predictionKeys_def count_addKey)
next
  case (GeneratePrediction m t i pt)
  obtain res where r: "generatePrediction m t i pt w = (res, w')" and ok: "ok = (\<not> isl res)"
    using assms GeneratePrediction by (auto split: prod.splits)
  note e = generatePrediction_effect[OF r]
  show ?thesis
  proof (cases res)
    case (Inl err)
    with e show ?thesis
      unfolding GeneratePrediction ok
      by (simp add: leadKeys_def projectKeys_def customerKeys_def weatherKeys_def
          predictionKeys_def)
  next
    case (Inr x)
    with e have k: "predictionKey (fst x) = (m, t, i, pt)" and
      tb: "predictive_model_results w' =
            (case db_get (sameKey m t i pt) (predictive_model_results w) of
               Some r0 \<Rightarrow> db_update (\<lambda>r. row_id r = row_id r0) (predictionUpdate (fst x))
                           (predictive_model_results w)
             | None \<Rightarrow> db_insert (now w) (fst x) (predictive_model_results w))"
      by simp_all
    have pk: "predictionKeys w' = addKey (m, t, i, pt) (predictionKeys w)"
      unfolding predictionKeys_def tb by (rule predictionKeys_step[OF k])
    have "0 < rowsFor (GeneratePrediction m t i pt) w'"
      by (simp add: pk count_addKey)
    moreover have "\<exists>k. predictionKeys w' = addKey k (predictionKeys w)"
      using pk by blast
    ultimately show ?thesis
      using e unfolding GeneratePrediction ok
      by (simp add: leadKeys_def projectKeys_def customerKeys_def weatherKeys_def)
  qed
qed

lemma run_Nil: "run [] w = w"
  by (simp add: run_def)

lemma run_Cons: "run (c # cs) w = run cs (snd (exec c w))"
  by (simp add: run_def)

lemma run_append: "run (cs @ ds) w = run ds (run cs w)"
  by (simp add: run_def)

lemma onePerKey_exec:
  assumes "onePerKey w"
  shows "onePerKey (snd (exec c w))"
proof -
  obtain ok w' where e: "exec c w = (ok, w')" by (cases "exec c w")
  from exec_keys[OF e] assms show ?thesis
    unfolding onePerKey_def e snd_conv by (metis distinct_addKey)
qed

lemma onePerKey_run: "onePerKey w \<Longrightarrow> onePerKey (run cs w)"
  by (induction cs arbitrary: w) (simp_all add: run_Nil run_Cons onePerKey_exec)

lemma count_pos_iff: "0 < count_list ks x \<longleftrightarrow> x \<in> set ks"
  using count_list_0_iff[of ks x] by auto

lemma count_pos_step:
  "0 < count_list ks x \<Longrightarrow> ks' = ks \<or> (\<exists>k. ks' = addKey k ks) \<Longrightarrow> 0 < count_list ks' x"
  by (auto simp: count_pos_iff set_addKey)

lemma rowsFor_pos_exec:
  assumes "0 < rowsFor d w"
  shows "0 < rowsFor d (snd (exec c w))"
proof -
  obtain ok w' where e: "exec c w = (ok, w')" by (cases "exec c w")
  from exec_keys[OF e] have k:
    "leadKeys w' = leadKeys w \<or> (\<exists>k. leadKeys w' = addKey k (leadKeys w))"
    "projectKeys w' = projectKeys w \<or> (\<exists>k. projectKeys w' = addKey k (projectKeys w))"
    "customerKeys w' = customerKeys w \<or> (\<exists>k. customerKeys w' = addKey k (customerKeys w))"
    "weatherKeys w' = weatherKeys w \<or> (\<exists>k. weatherKeys w' = addKey k (weatherKeys w))"
    "predictionKeys w' = predictionKeys w \<or> (\<exists>k. predictionKeys w' = addKey k (predictionKeys w))"
    by blast+
  show ?thesis
  proof (cases d)
    case (ProcessLead x)
    then show ?thesis using assms count_pos_step[OF _ k(1)] by (simp add: e)
  next
    case (ProcessProject x)
    then show ?thesis using assms count_pos_step[OF _ k(2)] by (simp add: e)
  next
    case (ProcessCustomer x)
    then show ?thesis using assms count_pos_step[OF _ k(3)] by (simp add: e)
  next
    case (ProcessWeatherEvent x)
    then show ?thesis using assms count_pos_step[OF _ k(4)] by (simp add: e)
  next
    case (GeneratePrediction m t i pt)
    then show ?thesis using assms count_pos_step[OF _ k(5)] by (simp add: e)
  qed
qed

lemma rowsFor_pos_run: "0 < rowsFor d w \<Longrightarrow> 0 < rowsFor d (run cs w)"
  by (induction cs arbitrary: w) (simp_all add: run_Nil run_Cons rowsFor_pos_exec)

lemma rowsFor_le_1: "onePerKey w \<Longrightarrow> rowsFor d w \<le> 1"
  by (cases d) (simp_all add: onePerKey_def count_list_distinct)

lemma db_get_key_Some:
  "k \<in> set (map (\<lambda>r. key (cols r)) t) \<Longrightarrow> db_get (\<lambda>c. key c = k) t \<noteq> None"
  by (auto simp: db_get_None)

lemma length_db_update: "length (db_update P f t) = length t"
  by (simp add: db_update_def)

lemma exec_sizes:
  assumes pos: "0 < rowsFor c w"
  shows "tableSizes (snd (exec c w)) = tableSizes w"
proof (cases c)
  case (ProcessLead ld)
  obtain res w' where r: "processLeadData ld w = (res, w')" by (cases "processLeadData ld w")
  from pos have "db_get (\<lambda>c. la_lead_id c = l_id ld) (lead_analytics w) \<noteq> None"
    unfolding ProcessLead by (intro db_get_key_Some) (simp add: count_pos_iff leadKeys_def)
  from length_upsert[OF this] processLeadData_effect[OF r] show ?thesis
    unfolding ProcessLead by (cases res) (simp_all add: r tableSizes_def)
next
  case (ProcessProject p)
  obtain res w' where r: "processProjectData p w = (res, w')" by (cases "processProjectData p w")
  from pos have "db_get (\<lambda>c. pa_project_id c = p_id p) (project_analytics w) \<noteq> None"
    unfolding ProcessProject by (intro db_get_key_Some) (simp add: count_pos_iff projectKeys_def)
  from length_upsert[OF this] processProjectData_effect[OF r] show ?thesis
    unfolding ProcessProject by (cases res) (simp_all add: r tableSizes_def)
next
  case (ProcessCustomer cu)
  obtain res w' where r: "processCustomerData cu w = (res, w')"
    by (cases "processCustomerData cu w")
  from pos have "db_get (\<lambda>c. ca_customer_id c = c_id cu) (customer_analytics w) \<noteq> None"
    unfolding ProcessCustomer by (intro db_get_key_Some) (simp add: count_pos_iff customerKeys_def)
  from length_upsert[OF this] processCustomerData_effect[OF r] show ?thesis
    unfolding ProcessCustomer by (cases res) (simp_all add: r tableSizes_def)
next
  case (ProcessWeatherEvent e)
  obtain res w' where r: "processWeatherEventData e w = (res, w')"
    by (cases "processWeatherEventData e w")
  from pos have "db_get (\<lambda>c. wa_weather_event_id c = w_id e) (weather_impact_analytics w) \<noteq> None"
    unfolding ProcessWeatherEvent by (intro db_get_key_Some) (simp add: count_pos_iff weatherKeys_def)
  from length_upsert[OF this] processWeatherEventData_effect[OF r] show ?thesis
    unfolding ProcessWeatherEvent by (cases res) (simp_all add: r tableSizes_def)
next
  case (GeneratePrediction m t i pt)
  obtain res w' where r: "generatePrediction m t i pt w = (res, w')"
    by (cases "generatePrediction m t i pt w")
  have sk: "sameKey m t i pt = (\<lambda>c. predictionKey c = (m, t, i, pt))"
    by (auto simp: sameKey_def predictionKey_def fun_eq_iff)
  from pos have "db_get (sameKey m t i pt) (predictive_model_results w) \<noteq> None"
    unfolding GeneratePrediction sk
    by (intro db_get_key_Some) (simp add: count_pos_iff predictionKeys_def)
  then obtain r0 where g: "db_get (sameKey m t i pt) (predictive_model_results w) = Some r0"
    by blast
  from generatePrediction_effect[OF r] show ?thesis
    unfolding GeneratePrediction
    by (cases res) (simp_all add: r tableSizes_def g length_db_update)
qed

text \<open>
  Claim C2. Starting from a store that holds at most one row per key, after any sequence
  of reconciliation and prediction calls, whichever of their database calls fail, every
  derived store still holds at most one row per key: one per entity id in the four
  analytics tables, one per (model name, entity type, entity id, prediction type) in
  \<open>predictive_model_results\<close>. Once a call of the sequence has resolved, the store holds
  exactly one row under that call's key. A further call for a key that has a row changes
  the size of no table and leaves exactly one row under the key: it updates in place.
\<close>

theorem C2_one_row_per_key:
  assumes inv: "onePerKey w"
  shows "onePerKey (run cs w) \<and>
         (\<forall>i < length cs. fst (exec (cs ! i) (run (take i cs) w)) \<longrightarrow>
                           rowsFor (cs ! i) (run cs w) = 1) \<and>
         (\<forall>c. 0 < rowsFor c (run cs w) \<longrightarrow>
              tableSizes (snd (exec c (run cs w))) = tableSizes (run cs w) \<and>
              rowsFor c (snd (exec c (run cs w))) = 1)"
proof -
  have final: "onePerKey (run cs w)" using inv by (rule onePerKey_run)
  have once: "rowsFor (cs ! i) (run cs w) = 1"
    if i: "i < length cs" and ok: "fst (exec (cs ! i) (run (take i cs) w))" for i
  proof -
    let ?wi = "run (take i cs) w"
    obtain b w' where e: "exec (cs ! i) ?wi = (b, w')" by (cases "exec (cs ! i) ?wi")
    with ok have "0 < rowsFor (cs ! i) w'" using exec_keys[OF e] by simp
    then have "0 < rowsFor (cs ! i) (run (drop (Suc i) cs) w')" by (rule rowsFor_pos_run)
    moreover have "run cs w = run (drop (Suc i) cs) w'"
    proof -
      have "cs = take i cs @ cs ! i # drop (Suc i) cs" using i by (rule id_take_nth_drop)
      then have "run cs w = run (take i cs @ cs ! i # drop (Suc i) cs) w" by simp
      also have "\<dots> = run (drop (Suc i) cs) (snd (exec (cs ! i) ?wi))"
        by (simp only: run_append run_Cons)
      finally show ?thesis by (simp add: e)
    qed
    ultimately have "0 < rowsFor (cs ! i) (run cs w)" by simp
    moreover have "rowsFor (cs ! i) (run cs w) \<le> 1" using final by (rule rowsFor_le_1)
    ultimately show ?thesis by simp
  qed
  have again: "tableSizes (snd (exec c (run cs w))) = tableSizes (run cs w) \<and>
               rowsFor c (snd (exec c (run cs w))) = 1"
    if pos: "0 < rowsFor c (run cs w)" for c
  proof -
    have "0 < rowsFor c (snd (exec c (run cs w)))" using pos by (rule rowsFor_pos_exec)
    moreover have "rowsFor c (snd (exec c (run cs w))) \<le> 1"
      using onePerKey_exec[OF final] by (rule rowsFor_le_1)
    ultimately show ?thesis using exec_sizes[OF pos] by simp
  qed
  show ?thesis using final once again by blast
qed

theorem C2_one_row_per_key_witness:
  "onePerKey smallWorld \<and>
   fst (exec (ProcessLead lead1) smallWorld) \<and>
   fst (exec (GeneratePrediction ''lead_conversion_model'' ''lead'' 1 ''conversion_probability'')
          (run [ProcessLead lead1, ProcessLead lead1] smallWorld)) \<and>
   rowsFor (ProcessLead lead1)
     (run [ProcessLead lead1, ProcessLead lead1,
           GeneratePrediction ''lead_conversion_model'' ''lead'' 1 ''conversion_probability'',
           GeneratePrediction ''lead_conversion_model'' ''lead'' 1 ''conversion_probability'']
        smallWorld) = 1 \<and>
   rowsFor (GeneratePrediction ''lead_conversion_model'' ''lead'' 1 ''conversion_probability'')
     (run [ProcessLead lead1, ProcessLead lead1,
           GeneratePrediction ''lead_conversion_model'' ''lead'' 1 ''conversion_probability'',
           GeneratePrediction ''lead_conversion_model'' ''lead'' 1 ''conversion_probability'']
        smallWorld) = 1"
proof -
  let ?gp = "GeneratePrediction ''lead_conversion_model'' ''lead'' 1 ''conversion_probability''"
  let ?cs = "[ProcessLead lead1, ProcessLead lead1, ?gp, ?gp]"
  have inv: "onePerKey smallWorld"
    by (simp add: onePerKey_def smallWorld_def emptyWorld_def leadKeys_def projectKeys_def
        customerKeys_def weatherKeys_def predictionKeys_def)
  have w1: "run [ProcessLead lead1, ProcessLead lead1] smallWorld =
              smallWorld\<lparr>lead_analytics :=
                [\<lparr>row_id = 1, created_at = 1700000000000, cols = leadAnalytics lead1\<rparr>]\<rparr>"
    by (simp add: run_def processLeadData_def smallWorld_def emptyWorld_def db_call_def
        db_get_def db_insert_def db_update_def lastID_def Let_def lead1_def leadAnalytics_def)
  have ok0: "fst (exec (ProcessLead lead1) smallWorld)"
    by (simp add: processLeadData_def smallWorld_def emptyWorld_def db_call_def
        db_get_def db_insert_def lastID_def Let_def lead1_def)
  have ok2: "fst (exec ?gp (run [ProcessLead lead1, ProcessLead lead1] smallWorld))"
    unfolding w1
    by (simp add: generatePrediction_def entityExists_def strategy_def
        leadConversionStrategy_def savePrediction_def smallWorld_def emptyWorld_def db_call_def
        db_get_def db_insert_def lastID_def Let_def lead1_def sameKey_def leadAnalytics_def)
  from C2_one_row_per_key[OF inv, of ?cs]
  have all: "\<forall>i<length ?cs. fst (exec (?cs ! i) (run (take i ?cs) smallWorld)) \<longrightarrow>
                rowsFor (?cs ! i) (run ?cs smallWorld) = 1"
    by blast
  from all[rule_format, of 0] ok0 have r0: "rowsFor (ProcessLead lead1) (run ?cs smallWorld) = 1"
    by (simp add: run_Nil)
  have t2: "take 2 ?cs = [ProcessLead lead1, ProcessLead lead1]" by simp
  from all[rule_format, of 2] ok2 have r2: "rowsFor ?gp (run ?cs smallWorld) = 1"
    by (simp only: t2) simp
  show ?thesis using inv ok0 ok2 r0 r2 by blast
qed

subsection \<open>The summary of processAllData\<close>

lemma andThen_Inr:
  "andThen m f = (Inr y, w') \<Longrightarrow> \<exists>x w1. m = (Inr x, w1) \<and> f x w1 = (Inr y, w')"
  by (auto simp: andThen_def split: prod.splits sum.splits)

lemma processAllData_summary:
  assumes "processAllData strftime w = (Inr sm, w')"
  shows "predictionsGenerated sm = 20 \<and> aggregatesGenerated sm = 6"
  using assms unfolding processAllData_def
  by (auto dest!: andThen_Inr)

text \<open>
  Claim C5 states that \<open>predictionsGenerated\<close> is the number of predictions generated.
  The summary holds the constant \<open>10 + 5 + 5\<close>: on a store with three leads, two
  customers and one project, with no failing call, the run resolves, the six predictions
  it generates are the six rows of \<open>predictive_model_results\<close> (empty before the run), and
  the summary reports 20. \<open>aggregatesGenerated\<close> is 6, the number of regenerations.
\<close>

theorem C5_predictions_generated_small_store:
  "length (predictive_model_results smallWorld) = 0 \<and>
   (case processAllData thirtyDays smallWorld of
      (r, w') \<Rightarrow>
        r = Inr \<lparr>leadsProcessed = 3, projectsProcessed = 1, customersProcessed = 2,
                 weatherEventsProcessed = 0, predictionsGenerated = 20,
                 aggregatesGenerated = 6\<rparr> \<and>
        length (predictive_model_results w') = 6)"
  by (simp add: processAllData_def smallWorld_def emptyWorld_def andThen_def db_all_def
      processLeadData_def processProjectData_def processCustomerData_def
      processWeatherEventData_def generatePrediction_def savePrediction_def strategy_def
      leadConversionStrategy_def customerChurnStrategy_def projectCostStrategy_def
      entityExists_def sameKey_def generateTimeBasedAggregates_def dateFormat_def
      metricQuery_def groupBy_def sqlMin_def sqlMax_def List.map_filter_def mkAggregate_def
      thirtyDays_def Math_random_def db_call_def
      db_get_def db_insert_def db_update_def lastID_def Let_def leadAnalytics_def
      projectAnalytics_def customerAnalytics_def)

end
